theory Spec2Isabelle
  imports Main "HOL-Library.Word"
begin

unbundle bit_operations_syntax

section \<open>The RTDM driver library (ksrc/skins/rtdm/drvlib.c)\<close>

text \<open>
  The driver library runs on top of the Xenomai nucleus. Every service takes the
  nucleus lock \<open>nklock\<close> with interrupts off for its whole body, so a service is
  atomic except where it suspends the caller (\<open>xnsynch_sleep_on\<close>,
  \<open>xnpod_suspend_thread\<close>). A blocking service is therefore embedded as the
  code from its entry to the suspension, and the code that runs when the nucleus
  resumes the caller; both return an \<open>outcome\<close>: the value returned to the
  caller, or the timeout of the suspension they end in.
\<close>

subsection \<open>C types\<close>

type_synonym tid = nat
  \<comment> \<open>the identity of an \<open>xnthread_t\<close>; a NULL thread pointer is \<open>None\<close>\<close>
type_synonym xnflags = "32 word"
  \<comment> \<open>\<open>xnflags_t\<close>, an \<open>unsigned long\<close> (32 bits on x86_32 and ARM)\<close>
type_synonym ulong = "32 word"
type_synonym xnticks = "64 word"
  \<comment> \<open>\<open>xnticks_t\<close>, \<open>uint64_t\<close>, \<open>rtdm_toseq_t\<close>: unsigned 64 bits\<close>
type_synonym s64 = "64 word"
  \<comment> \<open>\<open>int64_t\<close>, \<open>xnsticks_t\<close>: the same 64 bits, compared as signed (\<open>sint\<close>)\<close>

text \<open>The value of a service, or the suspension it has entered.\<close>

datatype outcome = Return int | Sleep xnticks

subsection \<open>Error numbers (Linux, asm-generic/errno.h and errno-base.h)\<close>

definition EPERM :: int where "EPERM = 1"
definition EINTR :: int where "EINTR = 4"
definition EWOULDBLOCK :: int where "EWOULDBLOCK = 11"
definition EIDRM :: int where "EIDRM = 43"
definition ETIMEDOUT :: int where "ETIMEDOUT = 110"

subsection \<open>Nucleus constants and bit macros\<close>

text \<open>
  Modelled from the spec: the headers that define these constants (nucleus/thread.h,
  nucleus/synch.h, nucleus/types.h, rtdm/rtdm_driver.h) are outside the verified
  sources. The spec gives a synch base a status word with a reserved "deleted" bit, an
  event a "pending" flag in that word, and a woken task a tag among timeout, deletion
  and explicit break. The masks below are single bits, pairwise distinct, as in the
  Xenomai headers; no property proved here needs more of them. \<open>XN_INFINITE\<close> is 0:
  the documentation of \<open>rtdm_task_init\<close> gives the period as "0 for non-cyclic mode".
\<close>

definition XNPEND :: xnflags where "XNPEND = 0x00000002"
definition XNDELAY :: xnflags where "XNDELAY = 0x00000004"
definition XNTIMEO :: xnflags where "XNTIMEO = 0x00000200"
definition XNRMID :: xnflags where "XNRMID = 0x00000400"
definition XNBREAK :: xnflags where "XNBREAK = 0x00000800"

definition XNSYNCH_SPARE0 :: xnflags where "XNSYNCH_SPARE0 = 0x01000000"
definition XNSYNCH_SPARE1 :: xnflags where "XNSYNCH_SPARE1 = 0x02000000"

definition XNSYNCH_DONE :: int where "XNSYNCH_DONE = 0"
definition XNSYNCH_RESCHED :: int where "XNSYNCH_RESCHED = 1"

definition XN_INFINITE :: xnticks where "XN_INFINITE = 0"

definition RTDM_EVENT_PENDING :: xnflags where "RTDM_EVENT_PENDING = XNSYNCH_SPARE1"

text \<open>drvlib.c, line 422.\<close>

definition RTDM_SYNCH_DELETED :: xnflags where "RTDM_SYNCH_DELETED = XNSYNCH_SPARE0"

definition testbits :: "xnflags \<Rightarrow> xnflags \<Rightarrow> bool" where
  "testbits flags bits = (flags AND bits \<noteq> 0)"

definition setbits :: "xnflags \<Rightarrow> xnflags \<Rightarrow> xnflags" where
  "setbits flags bits = flags OR bits"

definition clrbits :: "xnflags \<Rightarrow> xnflags \<Rightarrow> xnflags" where
  "clrbits flags bits = flags AND NOT bits"

subsection \<open>Nucleus state\<close>

text \<open>
  \<open>xnsynch_t\<close>: the status word, the owner and the queue of the threads pending on
  the object, head first.
\<close>

record xnsynch =
  status :: xnflags
  owner :: "tid option"
  pendq :: "tid list"

text \<open>
  What the driver library reads and changes of the nucleus: the clock
  (\<open>xnpod_get_time\<close>), the tick conversion (\<open>xnpod_ns2ticks\<close>), the status word of
  every thread, whether the calling context may not block
  (\<open>xnpod_unblockable_p\<close>), whether the RTDM assertions are compiled in
  (\<open>XENO_DEBUG(RTDM)\<close>), and how often the rescheduling procedure was called.
\<close>

record xnpod =
  jiffies :: xnticks
  ns2ticks :: "xnticks \<Rightarrow> xnticks"
  tstatus :: "tid \<Rightarrow> xnflags"
  unblockable :: bool
  debug_rtdm :: bool
  resched :: nat

definition xnpod_get_time :: "xnpod \<Rightarrow> xnticks" where
  "xnpod_get_time k = jiffies k"

definition xnpod_ns2ticks :: "xnpod \<Rightarrow> xnticks \<Rightarrow> xnticks" where
  "xnpod_ns2ticks k t = ns2ticks k t"

definition xnpod_unblockable_p :: "xnpod \<Rightarrow> bool" where
  "xnpod_unblockable_p k = unblockable k"

definition xnpod_schedule :: "xnpod \<Rightarrow> xnpod" where
  "xnpod_schedule k = k\<lparr>resched := Suc (resched k)\<rparr>"

definition xnthread_test_flags :: "xnpod \<Rightarrow> tid \<Rightarrow> xnflags \<Rightarrow> bool" where
  "xnthread_test_flags k thread bits = testbits (tstatus k thread) bits"

text \<open>
  \<open>XENO_ASSERT(RTDM, cond, action)\<close> runs \<open>action\<close> when the assertions are compiled
  in and \<open>cond\<close> is false; \<open>assert_fails\<close> is that test.
\<close>

definition assert_fails :: "xnpod \<Rightarrow> bool \<Rightarrow> bool" where
  "assert_fails k cond = (debug_rtdm k \<and> \<not> cond)"

definition xnsynch_test_flags :: "xnsynch \<Rightarrow> xnflags \<Rightarrow> bool" where
  "xnsynch_test_flags synch bits = testbits (status synch) bits"

definition xnsynch_set_flags :: "xnsynch \<Rightarrow> xnflags \<Rightarrow> xnsynch" where
  "xnsynch_set_flags synch bits = synch\<lparr>status := setbits (status synch) bits\<rparr>"

definition xnsynch_clear_flags :: "xnsynch \<Rightarrow> xnflags \<Rightarrow> xnsynch" where
  "xnsynch_clear_flags synch bits = synch\<lparr>status := clrbits (status synch) bits\<rparr>"

definition xnsynch_owner :: "xnsynch \<Rightarrow> tid option" where
  "xnsynch_owner synch = owner synch"

definition xnsynch_set_owner :: "xnsynch \<Rightarrow> tid option \<Rightarrow> xnsynch" where
  "xnsynch_set_owner synch thread = synch\<lparr>owner := thread\<rparr>"

text \<open>
  Modelled from the spec: the nucleus services on a wait queue (nucleus/synch.c,
  nucleus/pod.c) are outside the verified sources.

  \<open>xnpod_suspend_thread\<close> suspends a thread on the given condition bits for at
  most the given time: the wake tags of an earlier sleep are dropped, and the
  suspension is the \<open>Sleep\<close> outcome, with its timeout.
  \<open>xnsynch_sleep_on\<close> "registers the calling task on the shared wait queue, and
  suspends".
\<close>

definition xnpod_suspend_thread ::
    "xnpod \<Rightarrow> tid \<Rightarrow> xnflags \<Rightarrow> xnticks \<Rightarrow> xnpod \<times> outcome" where
  "xnpod_suspend_thread k thread bits timeout =
     (let woken = clrbits (tstatus k thread) (XNTIMEO OR XNRMID OR XNBREAK)
      in (k\<lparr>tstatus := (tstatus k)(thread := setbits woken bits)\<rparr>, Sleep timeout))"

definition xnsynch_sleep_on ::
    "xnpod \<Rightarrow> tid \<Rightarrow> xnsynch \<Rightarrow> xnticks \<Rightarrow> xnpod \<times> xnsynch \<times> outcome" where
  "xnsynch_sleep_on k thread synch timeout =
     (let (k', out) = xnpod_suspend_thread k thread XNPEND timeout
      in (k', synch\<lparr>pendq := pendq synch @ [thread]\<rparr>, out))"

text \<open>
  \<open>xnsynch_flush\<close> "wakes every waiting task, tagging each with reason": the queue is
  emptied, and the result says whether a thread was woken.
\<close>

definition xnsynch_flush :: "xnpod \<Rightarrow> xnsynch \<Rightarrow> xnflags \<Rightarrow> xnpod \<times> xnsynch \<times> int" where
  "xnsynch_flush k synch reason =
     (k\<lparr>tstatus := (\<lambda>t. if t \<in> set (pendq synch) then setbits (tstatus k t) reason
                           else tstatus k t)\<rparr>,
      synch\<lparr>pendq := []\<rparr>,
      if pendq synch = [] then XNSYNCH_DONE else XNSYNCH_RESCHED)"

text \<open>
  \<open>xnsynch_wakeup_one_sleeper\<close>: "if any task is waiting, wakes exactly one", the
  head of the queue, which becomes the owner ("it is handed ownership directly via
  wakeup"); the result is the woken thread, or NULL when no thread waits.
\<close>

definition xnsynch_wakeup_one_sleeper :: "xnsynch \<Rightarrow> xnsynch \<times> tid option" where
  "xnsynch_wakeup_one_sleeper synch =
     (case pendq synch of
        [] \<Rightarrow> (synch\<lparr>owner := None\<rparr>, None)
      | t # ts \<Rightarrow> (synch\<lparr>owner := Some t, pendq := ts\<rparr>, Some t))"

text \<open>
  Modelled from the spec: the thread services of the nucleus (nucleus/pod.c) are
  outside the verified sources. Each "registers the task with the scheduler",
  "configures periodic release" or starts the task, and can fail; whether it does is the
  nucleus's decision, so the value it returns is a parameter. A service that fails
  leaves the thread as it was.
\<close>

datatype thread_life = Unborn | Dormant | Started | Deleted

record rtdm_task =
  life :: thread_life
  period_ticks :: xnticks

definition xnpod_init_thread :: "int \<Rightarrow> rtdm_task \<Rightarrow> rtdm_task \<times> int" where
  "xnpod_init_thread r task = (if r = 0 then task\<lparr>life := Dormant\<rparr> else task, r)"

definition xnpod_set_thread_periodic ::
    "int \<Rightarrow> rtdm_task \<Rightarrow> xnticks \<Rightarrow> xnticks \<Rightarrow> rtdm_task \<times> int" where
  "xnpod_set_thread_periodic r task idate period =
     (if r = 0 then task\<lparr>period_ticks := period\<rparr> else task, r)"

definition xnpod_start_thread :: "int \<Rightarrow> rtdm_task \<Rightarrow> rtdm_task \<times> int" where
  "xnpod_start_thread r task = (if r = 0 then task\<lparr>life := Started\<rparr> else task, r)"

definition xnpod_delete_thread :: "rtdm_task \<Rightarrow> rtdm_task" where
  "xnpod_delete_thread task = task\<lparr>life := Deleted\<rparr>"

text \<open>The values the three nucleus services return to one call of \<open>rtdm_task_init\<close>.\<close>

record nucleus_results =
  init_res :: int
  periodic_res :: int
  start_res :: int

subsection \<open>Task services\<close>

text \<open>\<open>rtdm_task_init\<close>, lines 109 to 139.\<close>

definition rtdm_task_init ::
    "xnpod \<Rightarrow> nucleus_results \<Rightarrow> rtdm_task \<Rightarrow> xnticks \<Rightarrow> rtdm_task \<times> int" where
  "rtdm_task_init k nr task period =
     (let (task1, res) = xnpod_init_thread (init_res nr) task in
      if res \<noteq> 0 then (task1, res)
      else
        let (task2, res) =
              (if period \<noteq> XN_INFINITE
               then xnpod_set_thread_periodic (periodic_res nr) task1 XN_INFINITE
                      (xnpod_ns2ticks k period)
               else (task1, res)) in
        if res \<noteq> 0 then (xnpod_delete_thread task2, res)
        else
          let (task3, res) = xnpod_start_thread (start_res nr) task2 in
          if res \<noteq> 0 then (xnpod_delete_thread task3, res)
          else (task3, res))"

text \<open>
  \<open>rtdm_task_sleep_until\<close>, lines 362 to 386: up to the suspension, and from the
  return of \<open>xnpod_suspend_thread\<close> on.
\<close>

definition rtdm_task_sleep_until :: "xnpod \<Rightarrow> tid \<Rightarrow> xnticks \<Rightarrow> xnpod \<times> outcome" where
  "rtdm_task_sleep_until k thread wakeup_time =
     (if assert_fails k (\<not> xnpod_unblockable_p k) then (k, Return (- EPERM))
      else
        let delay = xnpod_ns2ticks k wakeup_time - xnpod_get_time k in
        if 0 <s delay then xnpod_suspend_thread k thread XNDELAY delay
        else (k, Return 0))"

definition rtdm_task_sleep_until_wakeup :: "xnpod \<Rightarrow> tid \<Rightarrow> outcome" where
  "rtdm_task_sleep_until_wakeup k thread =
     (if xnthread_test_flags k thread XNBREAK then Return (- EINTR) else Return 0)"

subsection \<open>IPC cleanup helper\<close>

text \<open>\<open>_rtdm_synch_flush\<close>, lines 424 to 438.\<close>

definition rtdm_synch_flush :: "xnpod \<Rightarrow> xnsynch \<Rightarrow> xnflags \<Rightarrow> xnpod \<times> xnsynch" where
  "rtdm_synch_flush k synch reason =
     (let synch1 = (if reason = XNRMID
                    then synch\<lparr>status := setbits (status synch) RTDM_SYNCH_DELETED\<rparr>
                    else synch);
          (k1, synch2, r) = xnsynch_flush k synch1 reason
      in (if r = XNSYNCH_RESCHED then xnpod_schedule k1 else k1, synch2))"

subsection \<open>The wait of the three blocking services\<close>

text \<open>
  What a blocking service leaves behind when it returns or suspends the caller: the
  nucleus, the object, the local \<open>timeout\<close>, the deadline that the handle
  \<open>timeout_seq\<close> points to (\<open>None\<close> for a NULL handle), and the outcome.
\<close>

record 'p wait_result =
  r_pod :: xnpod
  r_obj :: 'p
  r_timeout :: s64
  r_toseq :: "xnticks option"
  r_out :: outcome

text \<open>
  The block that \<open>rtdm_event_timedwait\<close> (lines 705 to 716), \<open>rtdm_sem_timeddown\<close>
  (lines 906 to 917) and \<open>rtdm_mutex_timedlock\<close> (lines 1134 to 1145, the label
  \<open>restart\<close>) each repeat word for word, on their own synch base.
\<close>

definition timed_sleep_on ::
    "xnpod \<Rightarrow> tid \<Rightarrow> xnsynch \<Rightarrow> s64 \<Rightarrow> xnticks option \<Rightarrow> xnsynch wait_result" where
  "timed_sleep_on k thread synch timeout timeout_seq =
     (case (if 0 <s timeout then timeout_seq else None) of
        Some deadline \<Rightarrow>
          (let timeout' = deadline - xnpod_get_time k in
           if timeout' \<le>s 0
           then \<lparr>r_pod = k, r_obj = synch, r_timeout = timeout', r_toseq = timeout_seq,
                 r_out = Return (- ETIMEDOUT)\<rparr>
           else
             let (k', synch', out) = xnsynch_sleep_on k thread synch timeout'
             in \<lparr>r_pod = k', r_obj = synch', r_timeout = timeout', r_toseq = timeout_seq,
                 r_out = out\<rparr>)
      | None \<Rightarrow>
          (let (k', synch', out) = xnsynch_sleep_on k thread synch (xnpod_ns2ticks k timeout)
           in \<lparr>r_pod = k', r_obj = synch', r_timeout = timeout, r_toseq = timeout_seq,
               r_out = out\<rparr>))"

subsection \<open>Event services\<close>

text \<open>
  \<open>rtdm_event_t\<close> and \<open>rtdm_mutex_t\<close> are structures with the single member
  \<open>synch_base\<close>; they are embedded as that member.
\<close>

type_synonym rtdm_event = xnsynch
type_synonym rtdm_mutex = xnsynch

text \<open>\<open>rtdm_event_signal\<close>, lines 594 to 606.\<close>

definition rtdm_event_signal :: "xnpod \<Rightarrow> rtdm_event \<Rightarrow> xnpod \<times> rtdm_event" where
  "rtdm_event_signal k event =
     (let event1 = xnsynch_set_flags event RTDM_EVENT_PENDING;
          (k1, event2, r) = xnsynch_flush k event1 0
      in (if r \<noteq> 0 then xnpod_schedule k1 else k1, event2))"

text \<open>
  \<open>rtdm_event_timedwait\<close>, lines 681 to 734: up to the suspension, and from the
  return of \<open>xnsynch_sleep_on\<close> on.
\<close>

definition rtdm_event_timedwait ::
    "xnpod \<Rightarrow> tid \<Rightarrow> rtdm_event \<Rightarrow> s64 \<Rightarrow> xnticks option \<Rightarrow> rtdm_event wait_result" where
  "rtdm_event_timedwait k thread event timeout timeout_seq =
     (let leave = (\<lambda>event' err. \<lparr>r_pod = k, r_obj = event', r_timeout = timeout,
                                  r_toseq = timeout_seq, r_out = Return err\<rparr>) in
      if assert_fails k (\<not> xnpod_unblockable_p k) then leave event (- EPERM)
      else if testbits (status event) RTDM_SYNCH_DELETED then leave event (- EIDRM)
      else if xnsynch_test_flags event RTDM_EVENT_PENDING
        then leave (xnsynch_clear_flags event RTDM_EVENT_PENDING) 0
      else if timeout <s 0 then leave event (- EWOULDBLOCK)
      else timed_sleep_on k thread event timeout timeout_seq)"

definition rtdm_event_timedwait_wakeup ::
    "xnpod \<Rightarrow> tid \<Rightarrow> rtdm_event \<Rightarrow> rtdm_event \<times> outcome" where
  "rtdm_event_timedwait_wakeup k thread event =
     (if \<not> xnthread_test_flags k thread (XNTIMEO OR XNRMID OR XNBREAK)
        then (xnsynch_clear_flags event RTDM_EVENT_PENDING, Return 0)
      else if xnthread_test_flags k thread XNTIMEO then (event, Return (- ETIMEDOUT))
      else if xnthread_test_flags k thread XNRMID then (event, Return (- EIDRM))
      else (event, Return (- EINTR)))"

text \<open>\<open>rtdm_event_clear\<close>, lines 755 to 765.\<close>

definition rtdm_event_clear :: "rtdm_event \<Rightarrow> rtdm_event" where
  "rtdm_event_clear event = xnsynch_clear_flags event RTDM_EVENT_PENDING"

text \<open>
  Modelled from the spec: \<open>rtdm_event_pulse\<close> is only declared in drvlib.c (line 570);
  its body is in rtdm/rtdm_driver.h. It "wakes all current waiters without setting
  pending", and "shares the wake path", the flush of the synch base with no reason.
\<close>

definition rtdm_event_pulse :: "xnpod \<Rightarrow> rtdm_event \<Rightarrow> xnpod \<times> rtdm_event" where
  "rtdm_event_pulse k event = rtdm_synch_flush k event 0"

subsection \<open>Semaphore services\<close>

record rtdm_sem =
  "value" :: ulong
  synch_base :: xnsynch

text \<open>
  \<open>rtdm_sem_timeddown\<close>, lines 887 to 935: up to the suspension, and from the
  return of \<open>xnsynch_sleep_on\<close> on.
\<close>

definition rtdm_sem_timeddown ::
    "xnpod \<Rightarrow> tid \<Rightarrow> rtdm_sem \<Rightarrow> s64 \<Rightarrow> xnticks option \<Rightarrow> rtdm_sem wait_result" where
  "rtdm_sem_timeddown k thread sem timeout timeout_seq =
     (let leave = (\<lambda>sem' err. \<lparr>r_pod = k, r_obj = sem', r_timeout = timeout,
                                r_toseq = timeout_seq, r_out = Return err\<rparr>) in
      if assert_fails k (\<not> xnpod_unblockable_p k) then leave sem (- EPERM)
      else if testbits (status (synch_base sem)) RTDM_SYNCH_DELETED then leave sem (- EIDRM)
      else if 0 < value sem then leave (sem\<lparr>value := value sem - 1\<rparr>) 0
      else if timeout <s 0 then leave sem (- EWOULDBLOCK)
      else
        let w = timed_sleep_on k thread (synch_base sem) timeout timeout_seq
        in \<lparr>r_pod = r_pod w, r_obj = sem\<lparr>synch_base := r_obj w\<rparr>, r_timeout = r_timeout w,
            r_toseq = r_toseq w, r_out = r_out w\<rparr>)"

definition rtdm_sem_timeddown_wakeup :: "xnpod \<Rightarrow> tid \<Rightarrow> rtdm_sem \<Rightarrow> rtdm_sem \<times> outcome" where
  "rtdm_sem_timeddown_wakeup k thread sem =
     (if xnthread_test_flags k thread (XNTIMEO OR XNRMID OR XNBREAK) then
        (if xnthread_test_flags k thread XNTIMEO then (sem, Return (- ETIMEDOUT))
         else if xnthread_test_flags k thread XNRMID then (sem, Return (- EIDRM))
         else (sem, Return (- EINTR)))
      else (sem, Return 0))"

text \<open>\<open>rtdm_sem_up\<close>, lines 959 to 972.\<close>

definition rtdm_sem_up :: "xnpod \<Rightarrow> rtdm_sem \<Rightarrow> xnpod \<times> rtdm_sem" where
  "rtdm_sem_up k sem =
     (let (synch', woken) = xnsynch_wakeup_one_sleeper (synch_base sem) in
      if woken \<noteq> None then (xnpod_schedule k, sem\<lparr>synch_base := synch'\<rparr>)
      else (k, sem\<lparr>synch_base := synch', value := value sem + 1\<rparr>))"

text \<open>
  Calls of \<open>rtdm_sem_timeddown\<close> one after the other, each with its caller, timeout
  and handle, none of them suspended in between: the semaphore after the last call
  and the outcome of each.
\<close>

fun sem_downs ::
    "xnpod \<Rightarrow> rtdm_sem \<Rightarrow> (tid \<times> s64 \<times> xnticks option) list \<Rightarrow> rtdm_sem \<times> outcome list" where
  "sem_downs k sem [] = (sem, [])"
| "sem_downs k sem ((thread, timeout, timeout_seq) # calls) =
     (let w = rtdm_sem_timeddown k thread sem timeout timeout_seq;
          (sem', outs) = sem_downs (r_pod w) (r_obj w) calls
      in (sem', r_out w # outs))"

subsection \<open>Mutex services\<close>

text \<open>
  \<open>rtdm_mutex_timedlock\<close>, lines 1110 to 1161: up to the suspension, and from the
  return of \<open>xnsynch_sleep_on\<close> on. The second part needs the local \<open>timeout\<close> as the
  first left it, since the label \<open>restart\<close> reads it again.
\<close>

definition rtdm_mutex_timedlock ::
    "xnpod \<Rightarrow> tid \<Rightarrow> rtdm_mutex \<Rightarrow> s64 \<Rightarrow> xnticks option \<Rightarrow> rtdm_mutex wait_result" where
  "rtdm_mutex_timedlock k thread mutex timeout timeout_seq =
     (let leave = (\<lambda>mutex' err. \<lparr>r_pod = k, r_obj = mutex', r_timeout = timeout,
                                  r_toseq = timeout_seq, r_out = Return err\<rparr>) in
      if assert_fails k (\<not> xnpod_unblockable_p k) then leave mutex (- EPERM)
      else if testbits (status mutex) RTDM_SYNCH_DELETED then leave mutex (- EIDRM)
      else if xnsynch_owner mutex = None then leave (xnsynch_set_owner mutex (Some thread)) 0
      else if timeout <s 0 then leave mutex (- EWOULDBLOCK)
      else timed_sleep_on k thread mutex timeout timeout_seq)"

definition rtdm_mutex_timedlock_wakeup ::
    "xnpod \<Rightarrow> tid \<Rightarrow> rtdm_mutex \<Rightarrow> s64 \<Rightarrow> xnticks option \<Rightarrow> rtdm_mutex wait_result" where
  "rtdm_mutex_timedlock_wakeup k thread mutex timeout timeout_seq =
     (let leave = (\<lambda>err. \<lparr>r_pod = k, r_obj = mutex, r_timeout = timeout,
                           r_toseq = timeout_seq, r_out = Return err\<rparr>) in
      if xnthread_test_flags k thread (XNTIMEO OR XNRMID OR XNBREAK) then
        (if xnthread_test_flags k thread XNTIMEO then leave (- ETIMEDOUT)
         else if xnthread_test_flags k thread XNRMID then leave (- EIDRM)
         else timed_sleep_on k thread mutex timeout timeout_seq)
      else leave 0)"

text \<open>
  Modelled from the spec: \<open>rtdm_mutex_unlock\<close> is only declared in drvlib.c (line
  1040); its body is in rtdm/rtdm_driver.h. It "releases ownership; if a waiter exists,
  it is handed ownership directly via wakeup", and is "always reschedule-eligible".
\<close>

definition rtdm_mutex_unlock :: "xnpod \<Rightarrow> rtdm_mutex \<Rightarrow> xnpod \<times> rtdm_mutex" where
  "rtdm_mutex_unlock k mutex =
     (let (mutex', woken) = xnsynch_wakeup_one_sleeper mutex in
      (if woken \<noteq> None then xnpod_schedule k else k, mutex'))"

text \<open>
  A whole call of \<open>rtdm_mutex_timedlock\<close>: the nucleus resumes the caller in the
  states of the list, one after the other. The result is the timeouts of the
  suspensions the call went through and the value it returned, \<open>None\<close> while the
  caller is still suspended after the last resumption of the list.
\<close>

fun timedlock_wakeups ::
    "tid \<Rightarrow> s64 \<Rightarrow> xnticks option \<Rightarrow> (xnpod \<times> rtdm_mutex) list \<Rightarrow> xnticks list \<times> int option" where
  "timedlock_wakeups thread timeout timeout_seq [] = ([], None)"
| "timedlock_wakeups thread timeout timeout_seq ((k, mutex) # rest) =
     (let w = rtdm_mutex_timedlock_wakeup k thread mutex timeout timeout_seq in
      case r_out w of
        Return err \<Rightarrow> ([], Some err)
      | Sleep t \<Rightarrow>
          (let (ts, r) = timedlock_wakeups thread (r_timeout w) (r_toseq w) rest
           in (t # ts, r)))"

definition timedlock_call ::
    "xnpod \<Rightarrow> tid \<Rightarrow> rtdm_mutex \<Rightarrow> s64 \<Rightarrow> xnticks option \<Rightarrow> (xnpod \<times> rtdm_mutex) list
       \<Rightarrow> xnticks list \<times> int option" where
  "timedlock_call k thread mutex timeout timeout_seq wakeups =
     (let w = rtdm_mutex_timedlock k thread mutex timeout timeout_seq in
      case r_out w of
        Return err \<Rightarrow> ([], Some err)
      | Sleep t \<Rightarrow>
          (let (ts, r) = timedlock_wakeups thread (r_timeout w) (r_toseq w) wakeups
           in (t # ts, r)))"

subsection \<open>Histories of one object\<close>

text \<open>
  The services of the core on one object, each an atomic step under the nucleus lock;
  a blocking service is two steps, its entry and its wake-up.
\<close>

text \<open>
  Modelled from the spec: between two steps the nucleus, whose code is outside the
  verified sources, may do its own work (\<open>Nucleus\<close>): advance the clock, switch to
  another context, tag threads, take sleepers whose timer fired or that were unblocked
  off the queue. It leaves the status word and the count of an object alone.
\<close>

datatype primitive = Event rtdm_event | Sem rtdm_sem | Mutex rtdm_mutex

fun synch_of :: "primitive \<Rightarrow> xnsynch" where
  "synch_of (Event event) = event"
| "synch_of (Sem sem) = synch_base sem"
| "synch_of (Mutex mutex) = mutex"

fun with_synch :: "primitive \<Rightarrow> xnsynch \<Rightarrow> primitive" where
  "with_synch (Event event) synch = Event synch"
| "with_synch (Sem sem) synch = Sem (sem\<lparr>synch_base := synch\<rparr>)"
| "with_synch (Mutex mutex) synch = Mutex synch"

datatype core_op =
    Flush xnflags
  | Event_signal
  | Event_pulse
  | Event_clear
  | Event_timedwait tid s64 "xnticks option"
  | Event_timedwait_wakeup tid
  | Sem_timeddown tid s64 "xnticks option"
  | Sem_timeddown_wakeup tid
  | Sem_up
  | Mutex_timedlock tid s64 "xnticks option"
  | Mutex_timedlock_wakeup tid s64 "xnticks option"
  | Mutex_unlock
  | Nucleus xnpod "tid list"

text \<open>A step; \<open>None\<close> when the service is not one of the object's kind.\<close>

fun exec_op :: "core_op \<Rightarrow> xnpod \<times> primitive \<Rightarrow> (xnpod \<times> primitive) option" where
  "exec_op (Flush reason) (k, p) =
     (let (k', synch') = rtdm_synch_flush k (synch_of p) reason
      in Some (k', with_synch p synch'))"
| "exec_op (Nucleus k' q) (k, p) = Some (k', with_synch p ((synch_of p)\<lparr>pendq := q\<rparr>))"
| "exec_op Event_signal (k, Event event) =
     (let (k', event') = rtdm_event_signal k event in Some (k', Event event'))"
| "exec_op Event_pulse (k, Event event) =
     (let (k', event') = rtdm_event_pulse k event in Some (k', Event event'))"
| "exec_op Event_clear (k, Event event) = Some (k, Event (rtdm_event_clear event))"
| "exec_op (Event_timedwait thread timeout timeout_seq) (k, Event event) =
     (let w = rtdm_event_timedwait k thread event timeout timeout_seq
      in Some (r_pod w, Event (r_obj w)))"
| "exec_op (Event_timedwait_wakeup thread) (k, Event event) =
     Some (k, Event (fst (rtdm_event_timedwait_wakeup k thread event)))"
| "exec_op (Sem_timeddown thread timeout timeout_seq) (k, Sem sem) =
     (let w = rtdm_sem_timeddown k thread sem timeout timeout_seq
      in Some (r_pod w, Sem (r_obj w)))"
| "exec_op (Sem_timeddown_wakeup thread) (k, Sem sem) =
     Some (k, Sem (fst (rtdm_sem_timeddown_wakeup k thread sem)))"
| "exec_op Sem_up (k, Sem sem) =
     (let (k', sem') = rtdm_sem_up k sem in Some (k', Sem sem'))"
| "exec_op (Mutex_timedlock thread timeout timeout_seq) (k, Mutex mutex) =
     (let w = rtdm_mutex_timedlock k thread mutex timeout timeout_seq
      in Some (r_pod w, Mutex (r_obj w)))"
| "exec_op (Mutex_timedlock_wakeup thread timeout timeout_seq) (k, Mutex mutex) =
     (let w = rtdm_mutex_timedlock_wakeup k thread mutex timeout timeout_seq
      in Some (r_pod w, Mutex (r_obj w)))"
| "exec_op Mutex_unlock (k, Mutex mutex) =
     (let (k', mutex') = rtdm_mutex_unlock k mutex in Some (k', Mutex mutex'))"
| "exec_op _ _ = None"

fun exec_ops :: "core_op list \<Rightarrow> xnpod \<times> primitive \<Rightarrow> (xnpod \<times> primitive) option" where
  "exec_ops [] s = Some s"
| "exec_ops (op # ops) s = (case exec_op op s of None \<Rightarrow> None | Some s' \<Rightarrow> exec_ops ops s')"

text \<open>The outcome of the blocking service of an object's kind, entered now.\<close>

fun wait_on :: "xnpod \<Rightarrow> tid \<Rightarrow> primitive \<Rightarrow> s64 \<Rightarrow> xnticks option \<Rightarrow> outcome" where
  "wait_on k thread (Event event) timeout timeout_seq =
     r_out (rtdm_event_timedwait k thread event timeout timeout_seq)"
| "wait_on k thread (Sem sem) timeout timeout_seq =
     r_out (rtdm_sem_timeddown k thread sem timeout timeout_seq)"
| "wait_on k thread (Mutex mutex) timeout timeout_seq =
     r_out (rtdm_mutex_timedlock k thread mutex timeout timeout_seq)"

subsection \<open>A nucleus and objects to run the services on\<close>

text \<open>
  An aperiodic nucleus (ticks are nanoseconds) at time 100, no thread tagged, called
  from a task that may block, the assertions compiled in.
\<close>

definition pod0 :: xnpod where
  "pod0 = \<lparr>jiffies = 100, ns2ticks = (\<lambda>t. t), tstatus = (\<lambda>t. 0), unblockable = False,
           debug_rtdm = True, resched = 0\<rparr>"

text \<open>The same nucleus at a later time, resuming thread 1 with the given tags.\<close>

definition pod_at :: "xnticks \<Rightarrow> xnflags \<Rightarrow> xnpod" where
  "pod_at now tags = pod0\<lparr>jiffies := now, tstatus := (\<lambda>t. if t = 1 then tags else 0)\<rparr>"

text \<open>A synch base that is not deleted and not pending, with the given owner and queue.\<close>

definition synch0 :: "tid option \<Rightarrow> tid list \<Rightarrow> xnsynch" where
  "synch0 own q = \<lparr>status = 0, owner = own, pendq = q\<rparr>"

text \<open>An event that is set, with no waiter.\<close>

definition event_set :: rtdm_event where
  "event_set = \<lparr>status = RTDM_EVENT_PENDING, owner = None, pendq = []\<rparr>"

definition sem0 :: "ulong \<Rightarrow> tid list \<Rightarrow> rtdm_sem" where
  "sem0 n q = \<lparr>value = n, synch_base = synch0 None q\<rparr>"

definition task0 :: rtdm_task where
  "task0 = \<lparr>life = Unborn, period_ticks = 0\<rparr>"

text \<open>The tests of the code on the status word of a synch base.\<close>

abbreviation is_deleted :: "xnsynch \<Rightarrow> bool" where
  "is_deleted synch \<equiv> testbits (status synch) RTDM_SYNCH_DELETED"

abbreviation is_pending :: "rtdm_event \<Rightarrow> bool" where
  "is_pending event \<equiv> xnsynch_test_flags event RTDM_EVENT_PENDING"

text \<open>
  The caller was woken by an explicit unblock: it carries the tag \<open>XNBREAK\<close> and
  neither \<open>XNTIMEO\<close> nor \<open>XNRMID\<close>.
\<close>

definition broken_only :: "xnpod \<Rightarrow> tid \<Rightarrow> bool" where
  "broken_only k thread =
     (xnthread_test_flags k thread XNBREAK \<and> \<not> xnthread_test_flags k thread XNTIMEO
      \<and> \<not> xnthread_test_flags k thread XNRMID)"

section \<open>Properties\<close>

lemmas errno_defs = EPERM_def EINTR_def EWOULDBLOCK_def EIDRM_def ETIMEDOUT_def

subsection \<open>Bits and signed comparison\<close>

lemma sless_iff_not_sle: "(0 <s (x::64 word)) = (\<not> x \<le>s 0)"
  by (auto simp add: word_sless_alt word_sle_eq)

lemma testbits_OR: "testbits f (a OR b) = (testbits f a \<or> testbits f b)"
  unfolding testbits_def by (simp add: bit.conj_disj_distrib or_eq_0_iff)

lemma deleted_clrbits_pending:
  "testbits (clrbits s RTDM_EVENT_PENDING) RTDM_SYNCH_DELETED = testbits s RTDM_SYNCH_DELETED"
  unfolding testbits_def clrbits_def RTDM_EVENT_PENDING_def RTDM_SYNCH_DELETED_def
    XNSYNCH_SPARE0_def XNSYNCH_SPARE1_def
  by (simp add: and.assoc)

lemma deleted_setbits: "testbits s RTDM_SYNCH_DELETED \<Longrightarrow> testbits (setbits s b) RTDM_SYNCH_DELETED"
  unfolding testbits_def setbits_def by (simp add: bit.conj_disj_distrib2 or_eq_0_iff)

lemma deleted_setbits_pending:
  "testbits (setbits s RTDM_EVENT_PENDING) RTDM_SYNCH_DELETED = testbits s RTDM_SYNCH_DELETED"
  unfolding testbits_def setbits_def RTDM_EVENT_PENDING_def RTDM_SYNCH_DELETED_def
    XNSYNCH_SPARE0_def XNSYNCH_SPARE1_def
  by (simp add: bit.conj_disj_distrib2 or_eq_0_iff)

lemma deleted_setbits_deleted: "testbits (setbits s RTDM_SYNCH_DELETED) RTDM_SYNCH_DELETED"
  unfolding testbits_def setbits_def RTDM_SYNCH_DELETED_def XNSYNCH_SPARE0_def
  by (simp add: bit.conj_disj_distrib2 or_eq_0_iff)

lemma pending_setbits: "testbits (setbits s RTDM_EVENT_PENDING) RTDM_EVENT_PENDING"
  unfolding testbits_def setbits_def RTDM_EVENT_PENDING_def XNSYNCH_SPARE1_def
  by (simp add: bit.conj_disj_distrib2 or_eq_0_iff)

lemma pending_clrbits: "\<not> testbits (clrbits s RTDM_EVENT_PENDING) RTDM_EVENT_PENDING"
  unfolding testbits_def clrbits_def by (simp add: and.assoc)

subsection \<open>The wait block\<close>

lemma timed_sleep_on_out:
  "r_out (timed_sleep_on k thread synch timeout timeout_seq) =
     (case (if 0 <s timeout then timeout_seq else None) of
        Some deadline \<Rightarrow> if deadline - xnpod_get_time k \<le>s 0 then Return (- ETIMEDOUT)
                         else Sleep (deadline - xnpod_get_time k)
      | None \<Rightarrow> Sleep (xnpod_ns2ticks k timeout))"
  by (simp add: timed_sleep_on_def xnsynch_sleep_on_def xnpod_suspend_thread_def Let_def
        split: option.splits)

lemma timed_sleep_on_status:
  "status (r_obj (timed_sleep_on k thread synch timeout timeout_seq)) = status synch"
  "owner (r_obj (timed_sleep_on k thread synch timeout timeout_seq)) = owner synch"
  "r_toseq (timed_sleep_on k thread synch timeout timeout_seq) = timeout_seq"
  by (simp_all add: timed_sleep_on_def xnsynch_sleep_on_def xnpod_suspend_thread_def Let_def
        split: option.splits)

lemma timed_sleep_on_pendq:
  "pendq (r_obj (timed_sleep_on k thread synch timeout timeout_seq)) =
     (case r_out (timed_sleep_on k thread synch timeout timeout_seq) of
        Sleep t \<Rightarrow> pendq synch @ [thread] | Return err \<Rightarrow> pendq synch)"
  by (simp add: timed_sleep_on_def xnsynch_sleep_on_def xnpod_suspend_thread_def Let_def
        split: option.splits)

lemma timed_sleep_on_toseq:
  assumes "0 <s timeout"
  shows "(deadline - xnpod_get_time k \<le>s 0 \<longrightarrow>
            timed_sleep_on k thread synch timeout (Some deadline) =
              \<lparr>r_pod = k, r_obj = synch, r_timeout = deadline - xnpod_get_time k,
               r_toseq = Some deadline, r_out = Return (- ETIMEDOUT)\<rparr>)
       \<and> (0 <s deadline - xnpod_get_time k \<longrightarrow>
            r_out (timed_sleep_on k thread synch timeout (Some deadline))
              = Sleep (deadline - xnpod_get_time k)
            \<and> r_timeout (timed_sleep_on k thread synch timeout (Some deadline))
              = deadline - xnpod_get_time k)"
  using assms
  by (simp add: timed_sleep_on_def xnsynch_sleep_on_def xnpod_suspend_thread_def Let_def
        sless_iff_not_sle)

lemma broken_only_tagged:
  "broken_only k thread \<Longrightarrow> xnthread_test_flags k thread (XNTIMEO OR XNRMID OR XNBREAK)"
  by (simp add: broken_only_def xnthread_test_flags_def testbits_OR)

lemma timedlock_wakeup_broken:
  "broken_only k thread \<Longrightarrow>
     rtdm_mutex_timedlock_wakeup k thread mutex timeout timeout_seq =
       timed_sleep_on k thread mutex timeout timeout_seq"
  using broken_only_tagged [of k thread]
  by (simp add: rtdm_mutex_timedlock_wakeup_def broken_only_def)

lemma timed_sleep_on_relative:
  "r_out (timed_sleep_on k thread synch timeout None) = Sleep (xnpod_ns2ticks k timeout)"
  "r_timeout (timed_sleep_on k thread synch timeout None) = timeout"
  by (simp_all add: timed_sleep_on_def xnsynch_sleep_on_def xnpod_suspend_thread_def Let_def)

subsection \<open>Whole calls of the mutex lock\<close>

lemma timedlock_wakeup_values:
  "r_out (rtdm_mutex_timedlock_wakeup k thread mutex timeout timeout_seq) = Return err \<Longrightarrow>
     err = 0 \<or> err = - ETIMEDOUT \<or> err = - EIDRM"
  by (auto simp add: rtdm_mutex_timedlock_wakeup_def timed_sleep_on_out
        split: if_splits option.splits)

lemma timedlock_wakeups_values:
  "timedlock_wakeups thread timeout timeout_seq wakeups = (sleeps, Some err) \<Longrightarrow>
     err = 0 \<or> err = - ETIMEDOUT \<or> err = - EIDRM"
proof (induction wakeups arbitrary: timeout timeout_seq sleeps)
  case Nil
  then show ?case by simp
next
  case (Cons w wakeups)
  obtain k mutex where w: "w = (k, mutex)"
    by (cases w)
  show ?case
  proof (cases "r_out (rtdm_mutex_timedlock_wakeup k thread mutex timeout timeout_seq)")
    case (Return e)
    with Cons.prems w have "err = e"
      by simp
    with Return show ?thesis
      by (simp add: timedlock_wakeup_values)
  next
    case (Sleep t)
    with Cons.prems w obtain ts where
      "timedlock_wakeups thread
         (r_timeout (rtdm_mutex_timedlock_wakeup k thread mutex timeout timeout_seq))
         (r_toseq (rtdm_mutex_timedlock_wakeup k thread mutex timeout timeout_seq)) wakeups
       = (ts, Some err)"
      by (auto simp add: Let_def split: prod.splits)
    then show ?thesis
      by (rule Cons.IH)
  qed
qed

lemma timedlock_values:
  "r_out (rtdm_mutex_timedlock k thread mutex timeout timeout_seq) = Return err \<Longrightarrow>
     err = - EPERM \<or> err = - EIDRM \<or> err = 0 \<or> err = - EWOULDBLOCK \<or> err = - ETIMEDOUT"
  by (auto simp add: rtdm_mutex_timedlock_def timed_sleep_on_out Let_def
        split: if_splits option.splits)

lemma timedlock_wakeups_relative:
  assumes "\<forall>(k', m') \<in> set wakeups. broken_only k' thread"
  shows "timedlock_wakeups thread timeout None wakeups =
           (map (\<lambda>(k', m'). xnpod_ns2ticks k' timeout) wakeups, None)"
  using assms
proof (induction wakeups)
  case Nil
  then show ?case by simp
next
  case (Cons w wakeups)
  obtain k' m' where w: "w = (k', m')"
    by (cases w)
  with Cons.prems have "broken_only k' thread"
    by simp
  then have "rtdm_mutex_timedlock_wakeup k' thread m' timeout None =
      timed_sleep_on k' thread m' timeout None"
    by (rule timedlock_wakeup_broken)
  with Cons w show ?case
    by (simp add: timed_sleep_on_relative timed_sleep_on_status)
qed

lemma timedlock_wakeups_sequence:
  assumes "0 <s timeout"
      and "\<forall>(k', m') \<in> set wakeups. broken_only k' thread \<and> 0 <s deadline - xnpod_get_time k'"
  shows "timedlock_wakeups thread timeout (Some deadline) wakeups =
           (map (\<lambda>(k', m'). deadline - xnpod_get_time k') wakeups, None)"
  using assms
proof (induction wakeups arbitrary: timeout)
  case Nil
  then show ?case by simp
next
  case (Cons w wakeups)
  obtain k' m' where w: "w = (k', m')"
    by (cases w)
  with Cons.prems have broken: "broken_only k' thread"
    and left: "0 <s deadline - xnpod_get_time k'"
    by simp_all
  have retry: "rtdm_mutex_timedlock_wakeup k' thread m' timeout (Some deadline) =
      timed_sleep_on k' thread m' timeout (Some deadline)"
    using broken by (rule timedlock_wakeup_broken)
  have rest: "timedlock_wakeups thread (deadline - xnpod_get_time k') (Some deadline) wakeups =
      (map (\<lambda>(k', m'). deadline - xnpod_get_time k') wakeups, None)"
    using left Cons.prems(2) by (intro Cons.IH) simp_all
  show ?case
    using timed_sleep_on_toseq [OF Cons.prems(1), of deadline k' thread m'] left rest
    by (simp add: w retry timed_sleep_on_status)
qed

subsection \<open>Semaphore steps\<close>

lemma sem_trydown:
  assumes "\<not> xnpod_unblockable_p k" and "\<not> is_deleted (synch_base sem)" and "timeout <s 0"
  shows "rtdm_sem_timeddown k thread sem timeout timeout_seq =
           \<lparr>r_pod = k, r_obj = (if 0 < value sem then sem\<lparr>value := value sem - 1\<rparr> else sem),
            r_timeout = timeout, r_toseq = timeout_seq,
            r_out = Return (if 0 < value sem then 0 else - EWOULDBLOCK)\<rparr>"
  using assms by (simp add: rtdm_sem_timeddown_def assert_fails_def)

lemma sem_downs_count:
  assumes "\<not> xnpod_unblockable_p k" and "\<not> is_deleted (synch_base sem)"
      and "length calls = Suc (unat (value sem))"
      and "\<forall>(thread, timeout, timeout_seq) \<in> set calls. timeout <s 0"
  shows "sem_downs k sem calls =
           (sem\<lparr>value := 0\<rparr>, replicate (unat (value sem)) (Return 0) @ [Return (- EWOULDBLOCK)])"
  using assms
proof (induction calls arbitrary: sem)
  case Nil
  then show ?case by simp
next
  case (Cons c calls)
  obtain thread timeout timeout_seq where c: "c = (thread, timeout, timeout_seq)"
    by (cases c)
  with Cons.prems have negative: "timeout <s 0"
    by simp
  note down = sem_trydown [OF Cons.prems(1) Cons.prems(2) negative, of thread timeout_seq]
  show ?case
  proof (cases "0 < value sem")
    case True
    then have one_less: "unat (value sem - 1) = unat (value sem) - 1" and some: "0 < unat (value sem)"
      by (simp_all add: unat_minus_one word_neq_0_conv unat_gt_0)
    have "sem_downs k (sem\<lparr>value := value sem - 1\<rparr>) calls =
        (sem\<lparr>value := value sem - 1\<rparr>\<lparr>value := 0\<rparr>,
         replicate (unat (value (sem\<lparr>value := value sem - 1\<rparr>))) (Return 0)
           @ [Return (- EWOULDBLOCK)])"
      using Cons.prems one_less some by (intro Cons.IH) simp_all
    moreover have "Return 0 # replicate (unat (value sem) - 1) (Return 0)
        = replicate (unat (value sem)) (Return 0)"
      using some by (cases "unat (value sem)") simp_all
    ultimately show ?thesis
      using True one_less by (simp add: c down)
  next
    case False
    then have zero: "value sem = 0"
      using word_neq_0_conv [of "value sem"] by blast
    with Cons.prems have "calls = []"
      by simp
    with zero show ?thesis
      by (simp add: c down)
  qed
qed


lemma sem_up_cases:
  "rtdm_sem_up k sem =
     (case pendq (synch_base sem) of
        [] \<Rightarrow> (k, sem\<lparr>synch_base := (synch_base sem)\<lparr>owner := None\<rparr>, value := value sem + 1\<rparr>)
      | t # ts \<Rightarrow> (xnpod_schedule k,
                   sem\<lparr>synch_base := (synch_base sem)\<lparr>owner := Some t, pendq := ts\<rparr>\<rparr>))"
  by (simp add: rtdm_sem_up_def xnsynch_wakeup_one_sleeper_def split: list.splits)

subsection \<open>The deleted bit along a history\<close>

lemma flush_keeps_deleted:
  "is_deleted synch \<Longrightarrow> is_deleted (snd (rtdm_synch_flush k synch reason))"
  by (simp add: rtdm_synch_flush_def xnsynch_flush_def Let_def deleted_setbits)

lemma flush_rmid_deletes: "is_deleted (snd (rtdm_synch_flush k synch XNRMID))"
  by (simp add: rtdm_synch_flush_def xnsynch_flush_def Let_def deleted_setbits_deleted)

lemma event_steps_keep_deleted:
  assumes "is_deleted event"
  shows "is_deleted (snd (rtdm_event_signal k event))"
    and "is_deleted (snd (rtdm_event_pulse k event))"
    and "is_deleted (rtdm_event_clear event)"
    and "is_deleted (r_obj (rtdm_event_timedwait k thread event timeout timeout_seq))"
    and "is_deleted (fst (rtdm_event_timedwait_wakeup k thread event))"
  using assms
  by (simp_all add: rtdm_event_signal_def rtdm_event_pulse_def rtdm_event_clear_def
        rtdm_event_timedwait_def rtdm_event_timedwait_wakeup_def flush_keeps_deleted
        xnsynch_flush_def xnsynch_set_flags_def xnsynch_clear_flags_def Let_def
        deleted_setbits_pending deleted_clrbits_pending timed_sleep_on_status)

lemma sem_steps_keep_deleted:
  assumes "is_deleted (synch_base sem)"
  shows "is_deleted (synch_base (snd (rtdm_sem_up k sem)))"
    and "is_deleted (synch_base (r_obj (rtdm_sem_timeddown k thread sem timeout timeout_seq)))"
    and "is_deleted (synch_base (fst (rtdm_sem_timeddown_wakeup k thread sem)))"
  using assms
  by (simp_all add: sem_up_cases rtdm_sem_timeddown_def rtdm_sem_timeddown_wakeup_def
        Let_def timed_sleep_on_status split: list.splits)

lemma mutex_steps_keep_deleted:
  assumes "is_deleted mutex"
  shows "is_deleted (snd (rtdm_mutex_unlock k mutex))"
    and "is_deleted (r_obj (rtdm_mutex_timedlock k thread mutex timeout timeout_seq))"
    and "is_deleted (r_obj (rtdm_mutex_timedlock_wakeup k thread mutex timeout timeout_seq))"
  using assms
  by (simp_all add: rtdm_mutex_unlock_def xnsynch_wakeup_one_sleeper_def
        rtdm_mutex_timedlock_def rtdm_mutex_timedlock_wakeup_def xnsynch_set_owner_def
        Let_def timed_sleep_on_status split: list.splits)

lemma synch_of_with_synch: "synch_of (with_synch p synch) = synch"
  by (cases p) simp_all

lemma exec_op_keeps_deleted:
  assumes "exec_op op (k, p) = Some (k', p')" and "is_deleted (synch_of p)"
  shows "is_deleted (synch_of p')"
proof (cases p)
  case (Event event)
  with assms show ?thesis
    using event_steps_keep_deleted [of event] flush_keeps_deleted [of event]
    by (cases op) (auto simp add: Let_def case_prod_beta)
next
  case (Sem sem)
  with assms show ?thesis
    using sem_steps_keep_deleted [of sem] flush_keeps_deleted [of "synch_base sem"]
    by (cases op) (auto simp add: Let_def case_prod_beta)
next
  case (Mutex mutex)
  with assms show ?thesis
    using mutex_steps_keep_deleted [of mutex] flush_keeps_deleted [of mutex]
    by (cases op) (auto simp add: Let_def case_prod_beta)
qed

lemma exec_ops_keep_deleted:
  assumes "exec_ops ops (k, p) = Some (k', p')" and "is_deleted (synch_of p)"
  shows "is_deleted (synch_of p')"
  using assms
proof (induction ops arbitrary: k p)
  case Nil
  then show ?case by simp
next
  case (Cons op ops)
  from Cons.prems(1) obtain k1 p1 where step: "exec_op op (k, p) = Some (k1, p1)"
    and rest: "exec_ops ops (k1, p1) = Some (k', p')"
    by (auto split: option.splits)
  from step Cons.prems(2) have "is_deleted (synch_of p1)"
    by (rule exec_op_keeps_deleted)
  with rest show ?case
    by (rule Cons.IH)
qed

lemma deleted_wait_fails:
  assumes "is_deleted (synch_of p)" and "\<not> xnpod_unblockable_p k"
  shows "wait_on k thread p timeout timeout_seq = Return (- EIDRM)"
  using assms
  by (cases p)
     (simp_all add: rtdm_event_timedwait_def rtdm_sem_timeddown_def rtdm_mutex_timedlock_def
        assert_fails_def)

subsection \<open>The example nucleus\<close>

lemma pod0_blockable: "\<not> xnpod_unblockable_p pod0"
  by (simp add: xnpod_unblockable_p_def pod0_def)

lemma minus_one_negative: "(- 1 :: 64 word) <s 0"
  by (simp add: word_sless_alt)

lemma pod_at_blockable: "\<not> xnpod_unblockable_p (pod_at now tags)"
  by (simp add: xnpod_unblockable_p_def pod_at_def pod0_def)

lemma pod_at_time: "xnpod_get_time (pod_at now tags) = now"
  by (simp add: xnpod_get_time_def pod_at_def)

lemma pod_at_broken: "broken_only (pod_at now XNBREAK) 1"
  by (simp add: broken_only_def xnthread_test_flags_def testbits_def pod_at_def
        XNBREAK_def XNTIMEO_def XNRMID_def)

subsection \<open>Task services\<close>

text \<open>
  C4. \<open>rtdm_task_init\<close> on a task that does not exist yet. It returns 0 only with the
  thread started, and a nonzero value only with no live thread left: the thread is
  either not created (the creation itself failed, and its error is returned with the
  task untouched) or deleted. When the creation succeeds and the periodic setup
  (asked for by a period other than \<open>XN_INFINITE\<close>) fails, the thread is deleted and
  the error of the periodic setup is returned; when the start fails, the thread is
  deleted and the error of the start is returned.
\<close>

theorem task_init_all_or_nothing:
  assumes "rtdm_task_init k nr task period = (task', res)" and "life task = Unborn"
  shows "(res = 0 \<longrightarrow> life task' = Started)
       \<and> (res \<noteq> 0 \<longrightarrow> life task' \<noteq> Dormant \<and> life task' \<noteq> Started)
       \<and> (init_res nr \<noteq> 0 \<longrightarrow> res = init_res nr \<and> task' = task)
       \<and> (init_res nr = 0 \<and> period \<noteq> XN_INFINITE \<and> periodic_res nr \<noteq> 0 \<longrightarrow>
            res = periodic_res nr \<and> life task' = Deleted)
       \<and> (init_res nr = 0 \<and> (period = XN_INFINITE \<or> periodic_res nr = 0) \<and> start_res nr \<noteq> 0 \<longrightarrow>
            res = start_res nr \<and> life task' = Deleted)"
  using assms
  by (auto simp add: rtdm_task_init_def xnpod_init_thread_def xnpod_set_thread_periodic_def
        xnpod_start_thread_def xnpod_delete_thread_def Let_def split: if_splits)

text \<open>
  A periodic task whose periodic setup fails with -22, and one whose start fails
  with -12: both are deleted and the error comes back.
\<close>

theorem task_init_all_or_nothing_witness:
  "rtdm_task_init pod0 \<lparr>init_res = 0, periodic_res = - 22, start_res = 0\<rparr> task0 1000
     = (task0\<lparr>life := Deleted\<rparr>, - 22)
   \<and> rtdm_task_init pod0 \<lparr>init_res = 0, periodic_res = 0, start_res = - 12\<rparr> task0 0
     = (task0\<lparr>life := Deleted\<rparr>, - 12)"
proof -
  have fresh: "life task0 = Unborn"
    by (simp add: task0_def)
  have periodic: "rtdm_task_init pod0 \<lparr>init_res = 0, periodic_res = - 22, start_res = 0\<rparr> task0 1000
      = (task0\<lparr>life := Deleted\<rparr>, - 22)"
    by (simp add: rtdm_task_init_def xnpod_init_thread_def xnpod_set_thread_periodic_def
          xnpod_delete_thread_def XN_INFINITE_def task0_def)
  have start: "rtdm_task_init pod0 \<lparr>init_res = 0, periodic_res = 0, start_res = - 12\<rparr> task0 0
      = (task0\<lparr>life := Deleted\<rparr>, - 12)"
    by (simp add: rtdm_task_init_def xnpod_init_thread_def xnpod_start_thread_def
          xnpod_delete_thread_def XN_INFINITE_def task0_def)
  show ?thesis
    using task_init_all_or_nothing [OF periodic fresh] task_init_all_or_nothing [OF start fresh]
          periodic start
    by simp
qed

text \<open>
  C9. \<open>rtdm_task_sleep_until\<close> from a context that may block. The delay is the wake-up
  time in ticks minus the current time, as a signed 64-bit value. When it is not
  positive the service returns 0 at once and leaves the nucleus as it is; it suspends
  the caller exactly when the delay is positive, for that delay. Resumed, it returns
  \<open>-EINTR\<close> exactly when the caller carries the tag \<open>XNBREAK\<close>, and 0 otherwise.
\<close>

theorem sleep_until_past_or_future:
  assumes "\<not> xnpod_unblockable_p k"
  shows "(xnpod_ns2ticks k wakeup_time - xnpod_get_time k \<le>s 0 \<longrightarrow>
            rtdm_task_sleep_until k thread wakeup_time = (k, Return 0))
       \<and> (0 <s xnpod_ns2ticks k wakeup_time - xnpod_get_time k \<longrightarrow>
            snd (rtdm_task_sleep_until k thread wakeup_time)
              = Sleep (xnpod_ns2ticks k wakeup_time - xnpod_get_time k))
       \<and> ((\<exists>t. snd (rtdm_task_sleep_until k thread wakeup_time) = Sleep t)
            = (0 <s xnpod_ns2ticks k wakeup_time - xnpod_get_time k))
       \<and> (rtdm_task_sleep_until_wakeup k' thread = Return (- EINTR))
            = xnthread_test_flags k' thread XNBREAK
       \<and> (rtdm_task_sleep_until_wakeup k' thread = Return 0)
            = (\<not> xnthread_test_flags k' thread XNBREAK)"
  using assms
  by (auto simp add: rtdm_task_sleep_until_def rtdm_task_sleep_until_wakeup_def assert_fails_def
        xnpod_suspend_thread_def Let_def sless_iff_not_sle EINTR_def)

text \<open>
  At time 100: a wake-up time of 100 or 40 returns at once, one of 130 suspends for
  30 ticks; a sleeper resumed by an unblock gets \<open>-EINTR\<close>, one resumed by its timer 0.
\<close>

theorem sleep_until_past_or_future_witness:
  "rtdm_task_sleep_until pod0 1 100 = (pod0, Return 0)
   \<and> rtdm_task_sleep_until pod0 1 40 = (pod0, Return 0)
   \<and> snd (rtdm_task_sleep_until pod0 1 130) = Sleep 30
   \<and> rtdm_task_sleep_until_wakeup (pod_at 110 XNBREAK) 1 = Return (- EINTR)
   \<and> rtdm_task_sleep_until_wakeup (pod_at 130 XNTIMEO) 1 = Return 0"
proof -
  have blockable: "\<not> xnpod_unblockable_p pod0"
    by (simp add: xnpod_unblockable_p_def pod0_def)
  have past: "xnpod_ns2ticks pod0 100 - xnpod_get_time pod0 \<le>s 0"
       "xnpod_ns2ticks pod0 40 - xnpod_get_time pod0 \<le>s 0"
    by (simp_all add: xnpod_ns2ticks_def xnpod_get_time_def pod0_def word_sle_eq)
  have future: "0 <s xnpod_ns2ticks pod0 130 - xnpod_get_time pod0"
       "xnpod_ns2ticks pod0 130 - xnpod_get_time pod0 = 30"
    by (simp_all add: xnpod_ns2ticks_def xnpod_get_time_def pod0_def word_sless_alt)
  have broken: "xnthread_test_flags (pod_at 110 XNBREAK) 1 XNBREAK"
       "\<not> xnthread_test_flags (pod_at 130 XNTIMEO) 1 XNBREAK"
    by (simp_all add: xnthread_test_flags_def testbits_def pod_at_def pod0_def
          XNBREAK_def XNTIMEO_def)
  show ?thesis
    using sleep_until_past_or_future [OF blockable, of 100 1 "pod_at 110 XNBREAK"]
          sleep_until_past_or_future [OF blockable, of 40 1 "pod_at 130 XNTIMEO"]
          sleep_until_past_or_future [OF blockable, of 130 1 "pod_at 130 XNTIMEO"]
          past future broken
    by simp
qed

subsection \<open>Events\<close>

text \<open>
  C6. An event that is not deleted is signalled; the next service on it is
  \<open>rtdm_event_timedwait\<close>, from a context that may block, with any timeout and any
  handle. The wait returns 0 without suspending the caller (the nucleus is untouched
  and the caller is not queued), and leaves the event with its pending flag cleared.
\<close>

theorem event_wait_after_signal:
  assumes "\<not> is_deleted event"
      and "rtdm_event_signal k event = (k1, event1)"
      and "\<not> xnpod_unblockable_p k2"
  shows "rtdm_event_timedwait k2 thread event1 timeout timeout_seq =
           \<lparr>r_pod = k2, r_obj = rtdm_event_clear event1, r_timeout = timeout,
            r_toseq = timeout_seq, r_out = Return 0\<rparr>
       \<and> pendq (rtdm_event_clear event1) = []
       \<and> \<not> is_pending (rtdm_event_clear event1)"
proof -
  from assms(2) have ev1: "event1 = (xnsynch_set_flags event RTDM_EVENT_PENDING)\<lparr>pendq := []\<rparr>"
    by (simp add: rtdm_event_signal_def xnsynch_flush_def Let_def)
  have "is_pending event1" and "\<not> is_deleted event1"
    using assms(1)
    by (simp_all add: ev1 xnsynch_test_flags_def xnsynch_set_flags_def pending_setbits
          deleted_setbits_pending)
  then show ?thesis
    using assms(3)
    by (simp add: rtdm_event_timedwait_def assert_fails_def rtdm_event_clear_def
          xnsynch_clear_flags_def xnsynch_test_flags_def pending_clrbits ev1)
qed

text \<open>
  An event with two waiters is signalled at time 100; a non-blocking wait right after
  returns 0 and the event is no longer pending.
\<close>

theorem event_wait_after_signal_witness:
  "r_out (rtdm_event_timedwait pod0 1 (snd (rtdm_event_signal pod0 (synch0 None [2, 3]))) (- 1) None)
     = Return 0
   \<and> \<not> is_pending
         (r_obj (rtdm_event_timedwait pod0 1 (snd (rtdm_event_signal pod0 (synch0 None [2, 3])))
            (- 1) None))"
proof -
  have live: "\<not> is_deleted (synch0 None [2, 3])"
    by (simp add: synch0_def testbits_def)
  have signal: "rtdm_event_signal pod0 (synch0 None [2, 3])
      = (fst (rtdm_event_signal pod0 (synch0 None [2, 3])),
         snd (rtdm_event_signal pod0 (synch0 None [2, 3])))"
    by simp
  show ?thesis
    using event_wait_after_signal [OF live signal pod0_blockable, of 1 "- 1" None]
    by simp
qed

subsection \<open>Non-blocking requests\<close>

text \<open>
  C7. From a context that may block, with a negative timeout: a wait on an event that
  is pending and not deleted returns 0 and clears the flag; a down on a semaphore with
  a positive value that is not deleted returns 0 and takes one unit; a lock on a mutex
  without owner that is not deleted returns 0 and makes the caller the owner. Each of
  the three services returns \<open>-EWOULDBLOCK\<close> from its entry if and only if the timeout
  is negative, the object is not deleted and the resource is not available, and none
  returns it after a wake-up.
\<close>

theorem nonblocking_tests_availability_first:
  assumes "\<not> xnpod_unblockable_p k"
  shows "(timeout <s 0 \<and> \<not> is_deleted event \<and> is_pending event \<longrightarrow>
            r_out (rtdm_event_timedwait k thread event timeout timeout_seq) = Return 0
            \<and> r_obj (rtdm_event_timedwait k thread event timeout timeout_seq)
                = xnsynch_clear_flags event RTDM_EVENT_PENDING)
       \<and> (timeout <s 0 \<and> \<not> is_deleted (synch_base sem) \<and> 0 < value sem \<longrightarrow>
            r_out (rtdm_sem_timeddown k thread sem timeout timeout_seq) = Return 0
            \<and> r_obj (rtdm_sem_timeddown k thread sem timeout timeout_seq)
                = sem\<lparr>value := value sem - 1\<rparr>)
       \<and> (timeout <s 0 \<and> \<not> is_deleted mutex \<and> xnsynch_owner mutex = None \<longrightarrow>
            r_out (rtdm_mutex_timedlock k thread mutex timeout timeout_seq) = Return 0
            \<and> r_obj (rtdm_mutex_timedlock k thread mutex timeout timeout_seq)
                = xnsynch_set_owner mutex (Some thread))
       \<and> (r_out (rtdm_event_timedwait k thread event timeout timeout_seq) = Return (- EWOULDBLOCK))
            = (timeout <s 0 \<and> \<not> is_deleted event \<and> \<not> is_pending event)
       \<and> (r_out (rtdm_sem_timeddown k thread sem timeout timeout_seq) = Return (- EWOULDBLOCK))
            = (timeout <s 0 \<and> \<not> is_deleted (synch_base sem) \<and> \<not> 0 < value sem)
       \<and> (r_out (rtdm_mutex_timedlock k thread mutex timeout timeout_seq) = Return (- EWOULDBLOCK))
            = (timeout <s 0 \<and> \<not> is_deleted mutex \<and> xnsynch_owner mutex \<noteq> None)
       \<and> snd (rtdm_event_timedwait_wakeup k' thread event) \<noteq> Return (- EWOULDBLOCK)
       \<and> snd (rtdm_sem_timeddown_wakeup k' thread sem) \<noteq> Return (- EWOULDBLOCK)
       \<and> r_out (rtdm_mutex_timedlock_wakeup k' thread mutex timeout' timeout_seq)
            \<noteq> Return (- EWOULDBLOCK)"
proof -
  have nowb: "r_out (timed_sleep_on k0 thread synch t ts) \<noteq> Return (- EWOULDBLOCK)" for k0 synch t ts
    by (simp add: timed_sleep_on_out errno_defs split: option.splits)
  have ev: "(timeout <s 0 \<and> \<not> is_deleted event \<and> is_pending event \<longrightarrow>
            r_out (rtdm_event_timedwait k thread event timeout timeout_seq) = Return 0
            \<and> r_obj (rtdm_event_timedwait k thread event timeout timeout_seq)
                = xnsynch_clear_flags event RTDM_EVENT_PENDING)"
       "(r_out (rtdm_event_timedwait k thread event timeout timeout_seq) = Return (- EWOULDBLOCK))
            = (timeout <s 0 \<and> \<not> is_deleted event \<and> \<not> is_pending event)"
    using assms nowb
    by (simp_all add: rtdm_event_timedwait_def assert_fails_def errno_defs)
  have se: "(timeout <s 0 \<and> \<not> is_deleted (synch_base sem) \<and> 0 < value sem \<longrightarrow>
            r_out (rtdm_sem_timeddown k thread sem timeout timeout_seq) = Return 0
            \<and> r_obj (rtdm_sem_timeddown k thread sem timeout timeout_seq)
                = sem\<lparr>value := value sem - 1\<rparr>)"
       "(r_out (rtdm_sem_timeddown k thread sem timeout timeout_seq) = Return (- EWOULDBLOCK))
            = (timeout <s 0 \<and> \<not> is_deleted (synch_base sem) \<and> \<not> 0 < value sem)"
    using assms nowb
    by (simp_all add: rtdm_sem_timeddown_def assert_fails_def errno_defs Let_def)
  have mu: "(timeout <s 0 \<and> \<not> is_deleted mutex \<and> xnsynch_owner mutex = None \<longrightarrow>
            r_out (rtdm_mutex_timedlock k thread mutex timeout timeout_seq) = Return 0
            \<and> r_obj (rtdm_mutex_timedlock k thread mutex timeout timeout_seq)
                = xnsynch_set_owner mutex (Some thread))"
       "(r_out (rtdm_mutex_timedlock k thread mutex timeout timeout_seq) = Return (- EWOULDBLOCK))
            = (timeout <s 0 \<and> \<not> is_deleted mutex \<and> xnsynch_owner mutex \<noteq> None)"
    using assms nowb
    by (simp_all add: rtdm_mutex_timedlock_def assert_fails_def errno_defs)
  have wk: "snd (rtdm_event_timedwait_wakeup k' thread event) \<noteq> Return (- EWOULDBLOCK)"
       "snd (rtdm_sem_timeddown_wakeup k' thread sem) \<noteq> Return (- EWOULDBLOCK)"
       "r_out (rtdm_mutex_timedlock_wakeup k' thread mutex timeout' timeout_seq)
            \<noteq> Return (- EWOULDBLOCK)"
    using nowb
    by (simp_all add: rtdm_event_timedwait_wakeup_def rtdm_sem_timeddown_wakeup_def
          rtdm_mutex_timedlock_wakeup_def errno_defs)
  from ev se mu wk show ?thesis by blast
qed

text \<open>
  Non-blocking requests on a set event, a semaphore of value 2 and a free mutex: all
  three return 0, the semaphore is left with 1 and the mutex with the caller as owner.
\<close>

theorem nonblocking_tests_availability_first_witness:
  "r_out (rtdm_event_timedwait pod0 1 event_set (- 1) None) = Return 0
   \<and> r_out (rtdm_sem_timeddown pod0 1 (sem0 2 []) (- 1) None) = Return 0
   \<and> r_obj (rtdm_sem_timeddown pod0 1 (sem0 2 []) (- 1) None) = sem0 1 []
   \<and> r_out (rtdm_mutex_timedlock pod0 1 (synch0 None []) (- 1) None) = Return 0
   \<and> r_obj (rtdm_mutex_timedlock pod0 1 (synch0 None []) (- 1) None) = synch0 (Some 1) []"
proof -
  have ev: "\<not> is_deleted event_set" "is_pending event_set"
    by (simp_all add: event_set_def testbits_def xnsynch_test_flags_def RTDM_EVENT_PENDING_def
          RTDM_SYNCH_DELETED_def XNSYNCH_SPARE0_def XNSYNCH_SPARE1_def)
  have se: "\<not> is_deleted (synch_base (sem0 2 []))" "0 < value (sem0 2 [])"
       "(sem0 2 [])\<lparr>value := value (sem0 2 []) - 1\<rparr> = sem0 1 []"
    by (simp_all add: sem0_def synch0_def testbits_def)
  have mu: "\<not> is_deleted (synch0 None [])" "xnsynch_owner (synch0 None []) = None"
       "xnsynch_set_owner (synch0 None []) (Some 1) = synch0 (Some 1) []"
    by (simp_all add: synch0_def testbits_def xnsynch_owner_def xnsynch_set_owner_def)
  show ?thesis
    using nonblocking_tests_availability_first [OF pod0_blockable,
            where timeout = "- 1" and event = event_set and sem = "sem0 2 []"
              and mutex = "synch0 None []" and thread = 1 and timeout_seq = None]
          ev se mu minus_one_negative
    by simp
qed

subsection \<open>Mutexes\<close>

text \<open>
  C8. \<open>rtdm_mutex_timedlock\<close> called by the thread that owns the mutex (not deleted,
  from a context that may block). With a negative timeout it returns \<open>-EWOULDBLOCK\<close>
  and leaves the mutex as it is; otherwise it runs the wait block of every contender,
  which suspends the caller at the end of the queue unless a timeout sequence has
  already expired. It never returns 0 or \<open>-EPERM\<close>, the owner stays the caller, and
  the outcome is the one the caller would get were the owner any other thread.
\<close>

theorem owner_relock_is_contender:
  assumes "\<not> xnpod_unblockable_p k" and "\<not> is_deleted mutex"
      and "xnsynch_owner mutex = Some thread"
  shows "(timeout <s 0 \<longrightarrow>
            rtdm_mutex_timedlock k thread mutex timeout timeout_seq =
              \<lparr>r_pod = k, r_obj = mutex, r_timeout = timeout, r_toseq = timeout_seq,
               r_out = Return (- EWOULDBLOCK)\<rparr>)
       \<and> (\<not> timeout <s 0 \<longrightarrow>
            rtdm_mutex_timedlock k thread mutex timeout timeout_seq =
              timed_sleep_on k thread mutex timeout timeout_seq)
       \<and> (\<not> timeout <s 0 \<and>
            \<not> (\<exists>deadline. timeout_seq = Some deadline \<and> 0 <s timeout
                  \<and> deadline - xnpod_get_time k \<le>s 0) \<longrightarrow>
            (\<exists>t. r_out (rtdm_mutex_timedlock k thread mutex timeout timeout_seq) = Sleep t)
            \<and> pendq (r_obj (rtdm_mutex_timedlock k thread mutex timeout timeout_seq))
                = pendq mutex @ [thread])
       \<and> r_out (rtdm_mutex_timedlock k thread mutex timeout timeout_seq) \<noteq> Return 0
       \<and> r_out (rtdm_mutex_timedlock k thread mutex timeout timeout_seq) \<noteq> Return (- EPERM)
       \<and> xnsynch_owner (r_obj (rtdm_mutex_timedlock k thread mutex timeout timeout_seq))
            = Some thread
       \<and> r_out (rtdm_mutex_timedlock k thread (mutex\<lparr>owner := Some other\<rparr>) timeout timeout_seq)
            = r_out (rtdm_mutex_timedlock k thread mutex timeout timeout_seq)"
proof -
  have lock: "rtdm_mutex_timedlock k thread mutex timeout timeout_seq =
      (if timeout <s 0
       then \<lparr>r_pod = k, r_obj = mutex, r_timeout = timeout, r_toseq = timeout_seq,
             r_out = Return (- EWOULDBLOCK)\<rparr>
       else timed_sleep_on k thread mutex timeout timeout_seq)"
    using assms by (simp add: rtdm_mutex_timedlock_def assert_fails_def)
  have other: "rtdm_mutex_timedlock k thread (mutex\<lparr>owner := Some other\<rparr>) timeout timeout_seq =
      (if timeout <s 0
       then \<lparr>r_pod = k, r_obj = mutex\<lparr>owner := Some other\<rparr>, r_timeout = timeout,
             r_toseq = timeout_seq, r_out = Return (- EWOULDBLOCK)\<rparr>
       else timed_sleep_on k thread (mutex\<lparr>owner := Some other\<rparr>) timeout timeout_seq)"
    using assms by (simp add: rtdm_mutex_timedlock_def assert_fails_def xnsynch_owner_def)
  have own: "owner mutex = Some thread"
    using assms(3) by (simp add: xnsynch_owner_def)
  show ?thesis
    unfolding lock other
    by (auto simp add: timed_sleep_on_out timed_sleep_on_pendq timed_sleep_on_status
          xnsynch_owner_def own errno_defs split: option.splits)
qed

text \<open>
  The owner of a mutex asks for it again at time 100: refused without waiting when
  the timeout is negative, suspended at the end of the queue when it is 50, and still
  the owner.
\<close>

theorem owner_relock_is_contender_witness:
  "rtdm_mutex_timedlock pod0 1 (synch0 (Some 1) []) (- 1) None =
     \<lparr>r_pod = pod0, r_obj = synch0 (Some 1) [], r_timeout = - 1, r_toseq = None,
      r_out = Return (- EWOULDBLOCK)\<rparr>
   \<and> (\<exists>t. r_out (rtdm_mutex_timedlock pod0 1 (synch0 (Some 1) []) 50 None) = Sleep t)
   \<and> pendq (r_obj (rtdm_mutex_timedlock pod0 1 (synch0 (Some 1) []) 50 None)) = [1]
   \<and> xnsynch_owner (r_obj (rtdm_mutex_timedlock pod0 1 (synch0 (Some 1) []) 50 None)) = Some 1"
proof -
  have live: "\<not> is_deleted (synch0 (Some 1) [])"
    by (simp add: synch0_def testbits_def)
  have own: "xnsynch_owner (synch0 (Some 1) []) = Some 1"
    by (simp add: synch0_def xnsynch_owner_def)
  have pos: "\<not> (50 :: 64 word) <s 0"
    by (simp add: word_sless_alt)
  have q: "pendq (synch0 (Some 1) []) = []"
    by (simp add: synch0_def)
  have no_seq: "\<not> (\<exists>deadline. (None :: xnticks option) = Some deadline \<and> 0 <s (50 :: 64 word)
                    \<and> deadline - xnpod_get_time pod0 \<le>s 0)"
    by simp
  have refused: "rtdm_mutex_timedlock pod0 1 (synch0 (Some 1) []) (- 1) None =
     \<lparr>r_pod = pod0, r_obj = synch0 (Some 1) [], r_timeout = - 1, r_toseq = None,
      r_out = Return (- EWOULDBLOCK)\<rparr>"
    using owner_relock_is_contender [OF pod0_blockable live own, of "- 1" None 2]
          minus_one_negative
    by blast
  have queued: "(\<exists>t. r_out (rtdm_mutex_timedlock pod0 1 (synch0 (Some 1) []) 50 None) = Sleep t)
      \<and> pendq (r_obj (rtdm_mutex_timedlock pod0 1 (synch0 (Some 1) []) 50 None))
          = pendq (synch0 (Some 1) []) @ [1]
      \<and> xnsynch_owner (r_obj (rtdm_mutex_timedlock pod0 1 (synch0 (Some 1) []) 50 None))
          = Some 1"
    using owner_relock_is_contender [OF pod0_blockable live own, of 50 None 2] pos no_seq
    by blast
  show ?thesis
    using refused queued q by simp
qed

subsection \<open>Timeout sequences\<close>

text \<open>
  C3. A blocking service entered from a context that may block, with a handle (a
  deadline) and a positive timeout, on an object that is not deleted and whose
  resource is not available: an event that is not pending, a semaphore of value 0, a
  mutex that has an owner; and \<open>rtdm_mutex_timedlock\<close> restarting after an explicit
  unblock. The remaining time is the deadline minus the current time, as a signed
  64-bit value. When it is not positive the service returns \<open>-ETIMEDOUT\<close> with the
  nucleus and the object untouched, so the caller is not suspended; when it is
  positive the caller is suspended with exactly the remaining time as timeout. The
  deadline behind the handle is what it was.
\<close>

theorem timeout_sequence_remaining:
  assumes "\<not> xnpod_unblockable_p k" and "0 <s timeout"
  shows "(\<not> is_deleted event \<and> \<not> is_pending event \<longrightarrow>
            (deadline - xnpod_get_time k \<le>s 0 \<longrightarrow>
               rtdm_event_timedwait k thread event timeout (Some deadline) =
                 \<lparr>r_pod = k, r_obj = event, r_timeout = deadline - xnpod_get_time k,
                  r_toseq = Some deadline, r_out = Return (- ETIMEDOUT)\<rparr>)
          \<and> (0 <s deadline - xnpod_get_time k \<longrightarrow>
               r_out (rtdm_event_timedwait k thread event timeout (Some deadline))
                 = Sleep (deadline - xnpod_get_time k))
          \<and> r_toseq (rtdm_event_timedwait k thread event timeout (Some deadline))
              = Some deadline)
       \<and> (\<not> is_deleted (synch_base sem) \<and> \<not> 0 < value sem \<longrightarrow>
            (deadline - xnpod_get_time k \<le>s 0 \<longrightarrow>
               rtdm_sem_timeddown k thread sem timeout (Some deadline) =
                 \<lparr>r_pod = k, r_obj = sem, r_timeout = deadline - xnpod_get_time k,
                  r_toseq = Some deadline, r_out = Return (- ETIMEDOUT)\<rparr>)
          \<and> (0 <s deadline - xnpod_get_time k \<longrightarrow>
               r_out (rtdm_sem_timeddown k thread sem timeout (Some deadline))
                 = Sleep (deadline - xnpod_get_time k))
          \<and> r_toseq (rtdm_sem_timeddown k thread sem timeout (Some deadline))
              = Some deadline)
       \<and> (\<not> is_deleted mutex \<and> xnsynch_owner mutex \<noteq> None \<longrightarrow>
            (deadline - xnpod_get_time k \<le>s 0 \<longrightarrow>
               rtdm_mutex_timedlock k thread mutex timeout (Some deadline) =
                 \<lparr>r_pod = k, r_obj = mutex, r_timeout = deadline - xnpod_get_time k,
                  r_toseq = Some deadline, r_out = Return (- ETIMEDOUT)\<rparr>)
          \<and> (0 <s deadline - xnpod_get_time k \<longrightarrow>
               r_out (rtdm_mutex_timedlock k thread mutex timeout (Some deadline))
                 = Sleep (deadline - xnpod_get_time k))
          \<and> r_toseq (rtdm_mutex_timedlock k thread mutex timeout (Some deadline))
              = Some deadline)
       \<and> (broken_only k thread \<longrightarrow>
            (deadline - xnpod_get_time k \<le>s 0 \<longrightarrow>
               rtdm_mutex_timedlock_wakeup k thread mutex timeout (Some deadline) =
                 \<lparr>r_pod = k, r_obj = mutex, r_timeout = deadline - xnpod_get_time k,
                  r_toseq = Some deadline, r_out = Return (- ETIMEDOUT)\<rparr>)
          \<and> (0 <s deadline - xnpod_get_time k \<longrightarrow>
               r_out (rtdm_mutex_timedlock_wakeup k thread mutex timeout (Some deadline))
                 = Sleep (deadline - xnpod_get_time k))
          \<and> r_toseq (rtdm_mutex_timedlock_wakeup k thread mutex timeout (Some deadline))
              = Some deadline)"
proof -
  note block = timed_sleep_on_toseq [OF assms(2), of deadline k thread]
  have ev: "\<not> is_deleted event \<and> \<not> is_pending event \<Longrightarrow>
      rtdm_event_timedwait k thread event timeout (Some deadline) =
        timed_sleep_on k thread event timeout (Some deadline)"
    using assms by (auto simp add: rtdm_event_timedwait_def assert_fails_def word_sless_alt)
  have se: "\<not> is_deleted (synch_base sem) \<and> \<not> 0 < value sem \<Longrightarrow>
      rtdm_sem_timeddown k thread sem timeout (Some deadline) =
        (let w = timed_sleep_on k thread (synch_base sem) timeout (Some deadline)
         in \<lparr>r_pod = r_pod w, r_obj = sem\<lparr>synch_base := r_obj w\<rparr>, r_timeout = r_timeout w,
             r_toseq = r_toseq w, r_out = r_out w\<rparr>)"
    using assms by (auto simp add: rtdm_sem_timeddown_def assert_fails_def word_sless_alt)
  have mu: "\<not> is_deleted mutex \<and> xnsynch_owner mutex \<noteq> None \<Longrightarrow>
      rtdm_mutex_timedlock k thread mutex timeout (Some deadline) =
        timed_sleep_on k thread mutex timeout (Some deadline)"
    using assms by (auto simp add: rtdm_mutex_timedlock_def assert_fails_def word_sless_alt)
  show ?thesis
    using block [of event] block [of "synch_base sem"] block [of mutex]
    by (auto simp add: ev se mu timedlock_wakeup_broken timed_sleep_on_status Let_def)
qed

text \<open>
  At time 120, a handle with the deadline 130 leaves 10 ticks and the caller is
  suspended for 10; one with the deadline 90 has expired and the call times out.
\<close>

theorem timeout_sequence_remaining_witness:
  "r_out (rtdm_event_timedwait (pod_at 120 XNBREAK) 1 (synch0 None []) 50 (Some 130)) = Sleep 10
   \<and> r_out (rtdm_event_timedwait (pod_at 120 XNBREAK) 1 (synch0 None []) 50 (Some 90))
       = Return (- ETIMEDOUT)
   \<and> r_out (rtdm_sem_timeddown (pod_at 120 XNBREAK) 1 (sem0 0 []) 50 (Some 130)) = Sleep 10
   \<and> r_out (rtdm_sem_timeddown (pod_at 120 XNBREAK) 1 (sem0 0 []) 50 (Some 90))
       = Return (- ETIMEDOUT)
   \<and> r_out (rtdm_mutex_timedlock (pod_at 120 XNBREAK) 1 (synch0 (Some 7) []) 50 (Some 130))
       = Sleep 10
   \<and> r_out (rtdm_mutex_timedlock (pod_at 120 XNBREAK) 1 (synch0 (Some 7) []) 50 (Some 90))
       = Return (- ETIMEDOUT)
   \<and> r_out (rtdm_mutex_timedlock_wakeup (pod_at 120 XNBREAK) 1 (synch0 (Some 7) [1]) 50 (Some 130))
       = Sleep 10
   \<and> r_out (rtdm_mutex_timedlock_wakeup (pod_at 120 XNBREAK) 1 (synch0 (Some 7) [1]) 50 (Some 90))
       = Return (- ETIMEDOUT)"
proof -
  have positive: "0 <s (50 :: 64 word)"
    by (simp add: word_sless_alt)
  have ev: "\<not> is_deleted (synch0 None []) \<and> \<not> is_pending (synch0 None [])"
    by (simp add: synch0_def testbits_def xnsynch_test_flags_def)
  have se: "\<not> is_deleted (synch_base (sem0 0 [])) \<and> \<not> 0 < value (sem0 0 [])"
    by (simp add: sem0_def synch0_def testbits_def)
  have mu: "\<not> is_deleted (synch0 (Some 7) []) \<and> xnsynch_owner (synch0 (Some 7) []) \<noteq> None"
    by (simp add: synch0_def testbits_def xnsynch_owner_def)
  have left: "0 <s (130 :: 64 word) - xnpod_get_time (pod_at 120 XNBREAK)"
       "(130 :: 64 word) - xnpod_get_time (pod_at 120 XNBREAK) = 10"
    by (simp_all add: pod_at_time word_sless_alt)
  have expired: "(90 :: 64 word) - xnpod_get_time (pod_at 120 XNBREAK) \<le>s 0"
    by (simp add: pod_at_time word_sle_eq)
  note open_seq = timeout_sequence_remaining [OF pod_at_blockable [of 120 XNBREAK] positive,
      where deadline = 130 and thread = 1
        and event = "synch0 None []" and sem = "sem0 0 []" and mutex = "synch0 (Some 7) []"]
  note open_wake = timeout_sequence_remaining [OF pod_at_blockable [of 120 XNBREAK] positive,
      where deadline = 130 and thread = 1
        and event = "synch0 None []" and sem = "sem0 0 []" and mutex = "synch0 (Some 7) [1]"]
  note shut_seq = timeout_sequence_remaining [OF pod_at_blockable [of 120 XNBREAK] positive,
      where deadline = 90 and thread = 1
        and event = "synch0 None []" and sem = "sem0 0 []" and mutex = "synch0 (Some 7) []"]
  note shut_wake = timeout_sequence_remaining [OF pod_at_blockable [of 120 XNBREAK] positive,
      where deadline = 90 and thread = 1
        and event = "synch0 None []" and sem = "sem0 0 []" and mutex = "synch0 (Some 7) [1]"]
  show ?thesis
    using open_seq open_wake shut_seq shut_wake ev se mu left expired pod_at_broken [of 120]
    by simp
qed

subsection \<open>The mutex lock and explicit unblocks\<close>

text \<open>
  C1. A caller of \<open>rtdm_mutex_timedlock\<close> resumed with the tag \<open>XNBREAK\<close> and
  neither \<open>XNTIMEO\<close> nor \<open>XNRMID\<close> goes back to the label \<open>restart\<close>: the wake-up
  code does what the wait block does. It does not return \<open>-EINTR\<close>; it suspends the
  caller again at the end of the queue, unless the timeout sequence has expired by
  then, which returns \<open>-ETIMEDOUT\<close>. A whole call, whatever the states in which the
  caller is resumed, never returns \<open>-EINTR\<close>, and once it has suspended the caller
  it returns only 0, \<open>-ETIMEDOUT\<close> or \<open>-EIDRM\<close>.
\<close>

theorem mutex_break_retries:
  "(broken_only k' thread \<longrightarrow>
      rtdm_mutex_timedlock_wakeup k' thread mutex' timeout' timeout_seq
        = timed_sleep_on k' thread mutex' timeout' timeout_seq
      \<and> r_out (rtdm_mutex_timedlock_wakeup k' thread mutex' timeout' timeout_seq)
          \<noteq> Return (- EINTR)
      \<and> ((\<exists>t. r_out (rtdm_mutex_timedlock_wakeup k' thread mutex' timeout' timeout_seq) = Sleep t
             \<and> pendq (r_obj (rtdm_mutex_timedlock_wakeup k' thread mutex' timeout' timeout_seq))
                 = pendq mutex' @ [thread])
          \<or> (r_out (rtdm_mutex_timedlock_wakeup k' thread mutex' timeout' timeout_seq)
                = Return (- ETIMEDOUT)
              \<and> (\<exists>deadline. timeout_seq = Some deadline \<and> 0 <s timeout'
                    \<and> deadline - xnpod_get_time k' \<le>s 0))))
   \<and> (timedlock_call k thread mutex timeout timeout_seq wakeups = (sleeps, Some err) \<longrightarrow>
        err \<noteq> - EINTR
        \<and> (sleeps \<noteq> [] \<longrightarrow> err = 0 \<or> err = - ETIMEDOUT \<or> err = - EIDRM))"
proof -
  have retry: "broken_only k' thread \<Longrightarrow>
      rtdm_mutex_timedlock_wakeup k' thread mutex' timeout' timeout_seq
        = timed_sleep_on k' thread mutex' timeout' timeout_seq"
    by (rule timedlock_wakeup_broken)
  have block: "r_out (timed_sleep_on k' thread mutex' timeout' timeout_seq) \<noteq> Return (- EINTR)
      \<and> ((\<exists>t. r_out (timed_sleep_on k' thread mutex' timeout' timeout_seq) = Sleep t
             \<and> pendq (r_obj (timed_sleep_on k' thread mutex' timeout' timeout_seq))
                 = pendq mutex' @ [thread])
          \<or> (r_out (timed_sleep_on k' thread mutex' timeout' timeout_seq) = Return (- ETIMEDOUT)
              \<and> (\<exists>deadline. timeout_seq = Some deadline \<and> 0 <s timeout'
                    \<and> deadline - xnpod_get_time k' \<le>s 0)))"
    by (auto simp add: timed_sleep_on_out timed_sleep_on_pendq errno_defs
          split: option.splits if_splits)
  have whole: "err \<noteq> - EINTR
        \<and> (sleeps \<noteq> [] \<longrightarrow> err = 0 \<or> err = - ETIMEDOUT \<or> err = - EIDRM)"
    if call: "timedlock_call k thread mutex timeout timeout_seq wakeups = (sleeps, Some err)"
  proof (cases "r_out (rtdm_mutex_timedlock k thread mutex timeout timeout_seq)")
    case (Return e)
    with call have "err = e" and "sleeps = []"
      by (simp_all add: timedlock_call_def)
    with Return timedlock_values [of k thread mutex timeout timeout_seq e] show ?thesis
      by (auto simp add: errno_defs)
  next
    case (Sleep t)
    with call obtain ts where
      "timedlock_wakeups thread
         (r_timeout (rtdm_mutex_timedlock k thread mutex timeout timeout_seq))
         (r_toseq (rtdm_mutex_timedlock k thread mutex timeout timeout_seq)) wakeups
       = (ts, Some err)"
      by (auto simp add: timedlock_call_def Let_def split: prod.splits)
    then have "err = 0 \<or> err = - ETIMEDOUT \<or> err = - EIDRM"
      by (rule timedlock_wakeups_values)
    then show ?thesis
      by (auto simp add: errno_defs)
  qed
  from retry block whole show ?thesis
    by presburger
qed

text \<open>
  A lock with an infinite timeout on a mutex owned by thread 7: the caller is
  unblocked at time 120 and suspended again, then resumed at 150 with no tag, and the
  call returns 0 after two suspensions.
\<close>

theorem mutex_break_retries_witness:
  "broken_only (pod_at 120 XNBREAK) 1
   \<and> r_out (rtdm_mutex_timedlock_wakeup (pod_at 120 XNBREAK) 1 (synch0 (Some 7) []) 0 None)
       = Sleep 0
   \<and> timedlock_call pod0 1 (synch0 (Some 7) []) 0 None
        [(pod_at 120 XNBREAK, synch0 (Some 7) []), (pod_at 150 0, synch0 (Some 1) [])]
       = ([0, 0], Some 0)
   \<and> (0 :: int) \<noteq> - EINTR"
proof -
  have call: "timedlock_call pod0 1 (synch0 (Some 7) []) 0 None
        [(pod_at 120 XNBREAK, synch0 (Some 7) []), (pod_at 150 0, synch0 (Some 1) [])]
       = ([0, 0], Some 0)"
    by (simp add: timedlock_call_def rtdm_mutex_timedlock_def rtdm_mutex_timedlock_wakeup_def
          timed_sleep_on_def xnsynch_sleep_on_def xnpod_suspend_thread_def assert_fails_def
          xnpod_unblockable_p_def xnpod_ns2ticks_def xnsynch_owner_def xnthread_test_flags_def
          testbits_def pod_at_def pod0_def synch0_def XNBREAK_def XNTIMEO_def XNRMID_def)
  have block: "timed_sleep_on (pod_at 120 XNBREAK) 1 (synch0 (Some 7) []) 0 None
      = \<lparr>r_pod = (pod_at 120 XNBREAK)
           \<lparr>tstatus := (tstatus (pod_at 120 XNBREAK))
              (1 := setbits (clrbits (tstatus (pod_at 120 XNBREAK) 1)
                       (XNTIMEO OR XNRMID OR XNBREAK)) XNPEND)\<rparr>,
         r_obj = synch0 (Some 7) [1], r_timeout = 0, r_toseq = None, r_out = Sleep 0\<rparr>"
    by (simp add: timed_sleep_on_def xnsynch_sleep_on_def xnpod_suspend_thread_def
          xnpod_ns2ticks_def pod_at_def pod0_def synch0_def)
  show ?thesis
    using mutex_break_retries [of "pod_at 120 XNBREAK" 1 "synch0 (Some 7) []" 0 None
            pod0 "synch0 (Some 7) []" 0
            "[(pod_at 120 XNBREAK, synch0 (Some 7) []), (pod_at 150 0, synch0 (Some 1) [])]"
            "[0, 0]" 0]
          pod_at_broken [of 120] call block
    by simp
qed

text \<open>
  C10. \<open>rtdm_mutex_timedlock\<close> with a positive timeout on a mutex that has an owner
  (not deleted, from a context that may block), the caller being resumed by explicit
  unblocks only. Without a handle, the call suspends the caller once at the entry and
  once more after every unblock, each time with the tick conversion of the whole
  timeout it was called with, whatever the time at which the caller was resumed, and
  it is still suspended after the last unblock. With a handle that has not expired,
  every suspension has the deadline minus the time of the restart as timeout.
\<close>

theorem relative_timeout_restarts_in_full:
  assumes "\<not> xnpod_unblockable_p k" and "\<not> is_deleted mutex"
      and "xnsynch_owner mutex \<noteq> None" and "0 <s timeout"
      and "\<forall>(k', m') \<in> set wakeups. broken_only k' thread"
  shows "timedlock_call k thread mutex timeout None wakeups =
           (xnpod_ns2ticks k timeout # map (\<lambda>(k', m'). xnpod_ns2ticks k' timeout) wakeups, None)
       \<and> (0 <s deadline - xnpod_get_time k
            \<and> (\<forall>(k', m') \<in> set wakeups. 0 <s deadline - xnpod_get_time k') \<longrightarrow>
          timedlock_call k thread mutex timeout (Some deadline) wakeups =
            ((deadline - xnpod_get_time k) # map (\<lambda>(k', m'). deadline - xnpod_get_time k') wakeups,
             None))"
proof -
  have entry: "rtdm_mutex_timedlock k thread mutex timeout timeout_seq =
      timed_sleep_on k thread mutex timeout timeout_seq" for timeout_seq
    using assms(1-4)
    by (auto simp add: rtdm_mutex_timedlock_def assert_fails_def word_sless_alt)
  have relative: "timedlock_call k thread mutex timeout None wakeups =
      (xnpod_ns2ticks k timeout # map (\<lambda>(k', m'). xnpod_ns2ticks k' timeout) wakeups, None)"
    using timedlock_wakeups_relative [OF assms(5), of timeout]
    by (simp add: timedlock_call_def entry timed_sleep_on_relative timed_sleep_on_status)
  have sequence: "timedlock_call k thread mutex timeout (Some deadline) wakeups =
      ((deadline - xnpod_get_time k) # map (\<lambda>(k', m'). deadline - xnpod_get_time k') wakeups, None)"
    if first: "0 <s deadline - xnpod_get_time k"
      and later: "\<forall>(k', m') \<in> set wakeups. 0 <s deadline - xnpod_get_time k'"
  proof -
    have all: "\<forall>(k', m') \<in> set wakeups. broken_only k' thread \<and> 0 <s deadline - xnpod_get_time k'"
      using assms(5) later by auto
    show ?thesis
      using timed_sleep_on_toseq [OF assms(4), of deadline k thread mutex] first
            timedlock_wakeups_sequence [OF first all]
      by (simp add: timedlock_call_def entry timed_sleep_on_status)
  qed
  from relative sequence show ?thesis
    by blast
qed

text \<open>
  A timeout of 50 at time 100, the caller unblocked at 140 and at 180: without a
  handle the caller is suspended three times for 50 ticks and is still waiting 80
  ticks after the call; with the deadline 200 the suspensions are for 100, 60 and 20.
\<close>

theorem relative_timeout_restarts_in_full_witness:
  "timedlock_call pod0 1 (synch0 (Some 7) []) 50 None
      [(pod_at 140 XNBREAK, synch0 (Some 7) []), (pod_at 180 XNBREAK, synch0 (Some 7) [])]
     = ([50, 50, 50], None)
   \<and> timedlock_call pod0 1 (synch0 (Some 7) []) 50 (Some 200)
      [(pod_at 140 XNBREAK, synch0 (Some 7) []), (pod_at 180 XNBREAK, synch0 (Some 7) [])]
     = ([100, 60, 20], None)"
proof -
  have live: "\<not> is_deleted (synch0 (Some 7) [])"
    by (simp add: synch0_def testbits_def)
  have owned: "xnsynch_owner (synch0 (Some 7) []) \<noteq> None"
    by (simp add: synch0_def xnsynch_owner_def)
  have positive: "0 <s (50 :: 64 word)"
    by (simp add: word_sless_alt)
  have broken: "\<forall>(k', m') \<in> set [(pod_at 140 XNBREAK, synch0 (Some 7) []),
                      (pod_at 180 XNBREAK, synch0 (Some 7) [])]. broken_only k' 1"
    using pod_at_broken [of 140] pod_at_broken [of 180] by simp
  have left: "0 <s (200 :: 64 word) - xnpod_get_time pod0
      \<and> (\<forall>(k', m') \<in> set [(pod_at 140 XNBREAK, synch0 (Some 7) []),
                      (pod_at 180 XNBREAK, synch0 (Some 7) [])]. 0 <s 200 - xnpod_get_time k')"
    by (simp add: xnpod_get_time_def pod_at_def pod0_def word_sless_alt)
  have ticks: "xnpod_ns2ticks pod0 50 = 50" "xnpod_ns2ticks (pod_at 140 XNBREAK) 50 = 50"
      "xnpod_ns2ticks (pod_at 180 XNBREAK) 50 = 50"
      "(200 :: 64 word) - xnpod_get_time pod0 = 100"
    by (simp_all add: xnpod_ns2ticks_def xnpod_get_time_def pod_at_def pod0_def)
  show ?thesis
    using relative_timeout_restarts_in_full [OF pod0_blockable live owned positive broken, of 200]
          left ticks
    by (simp add: pod_at_time)
qed

subsection \<open>Semaphores\<close>

text \<open>
  C2. A semaphore that is not deleted, of value N, and N + 1 calls of
  \<open>rtdm_sem_timeddown\<close> one after the other, each with a negative timeout, from a
  context that may block: the first N return 0, the last returns \<open>-EWOULDBLOCK\<close>, and
  the value is 0 in the end. A single such call on a positive value returns 0 and
  takes exactly one unit. \<open>rtdm_sem_up\<close> on a semaphore with waiters takes the head
  off the queue and leaves the value as it is; on one without waiters it adds one to
  the value (an \<open>unsigned long\<close>) and the queue stays empty.
\<close>

theorem sem_counts_units:
  assumes "\<not> xnpod_unblockable_p k" and "\<not> is_deleted (synch_base sem)"
      and "length calls = Suc (unat (value sem))"
      and "\<forall>(thread, timeout, timeout_seq) \<in> set calls. timeout <s 0"
  shows "sem_downs k sem calls =
           (sem\<lparr>value := 0\<rparr>, replicate (unat (value sem)) (Return 0) @ [Return (- EWOULDBLOCK)])
       \<and> (0 < value sem \<and> timeout <s 0 \<longrightarrow>
            r_out (rtdm_sem_timeddown k thread sem timeout timeout_seq) = Return 0
            \<and> r_obj (rtdm_sem_timeddown k thread sem timeout timeout_seq)
                = sem\<lparr>value := value sem - 1\<rparr>
            \<and> unat (value (r_obj (rtdm_sem_timeddown k thread sem timeout timeout_seq)))
                = unat (value sem) - 1)
       \<and> (pendq (synch_base sem') \<noteq> [] \<longrightarrow>
            value (snd (rtdm_sem_up k' sem')) = value sem'
            \<and> pendq (synch_base (snd (rtdm_sem_up k' sem'))) = tl (pendq (synch_base sem'))
            \<and> owner (synch_base (snd (rtdm_sem_up k' sem'))) = Some (hd (pendq (synch_base sem'))))
       \<and> (pendq (synch_base sem') = [] \<longrightarrow>
            value (snd (rtdm_sem_up k' sem')) = value sem' + 1
            \<and> pendq (synch_base (snd (rtdm_sem_up k' sem'))) = [])"
proof -
  have downs: "sem_downs k sem calls =
      (sem\<lparr>value := 0\<rparr>, replicate (unat (value sem)) (Return 0) @ [Return (- EWOULDBLOCK)])"
    using assms by (rule sem_downs_count)
  have one: "r_out (rtdm_sem_timeddown k thread sem timeout timeout_seq) = Return 0
      \<and> r_obj (rtdm_sem_timeddown k thread sem timeout timeout_seq) = sem\<lparr>value := value sem - 1\<rparr>
      \<and> unat (value (r_obj (rtdm_sem_timeddown k thread sem timeout timeout_seq)))
          = unat (value sem) - 1"
    if "0 < value sem" and "timeout <s 0"
    using that sem_trydown [OF assms(1) assms(2) that(2), of thread timeout_seq]
    by (simp add: unat_minus_one word_neq_0_conv)
  have up: "(pendq (synch_base sem') \<noteq> [] \<longrightarrow>
            value (snd (rtdm_sem_up k' sem')) = value sem'
            \<and> pendq (synch_base (snd (rtdm_sem_up k' sem'))) = tl (pendq (synch_base sem'))
            \<and> owner (synch_base (snd (rtdm_sem_up k' sem'))) = Some (hd (pendq (synch_base sem'))))
       \<and> (pendq (synch_base sem') = [] \<longrightarrow>
            value (snd (rtdm_sem_up k' sem')) = value sem' + 1
            \<and> pendq (synch_base (snd (rtdm_sem_up k' sem'))) = [])"
    by (simp add: sem_up_cases split: list.splits)
  from downs one up show ?thesis
    by blast
qed

text \<open>
  A semaphore of value 2: three non-blocking downs return 0, 0 and \<open>-EWOULDBLOCK\<close>.
  An up with threads 4 and 5 waiting wakes thread 4 and leaves the value 0; an up
  with no waiter makes the value 1.
\<close>

theorem sem_counts_units_witness:
  "sem_downs pod0 (sem0 2 []) [(1, - 1, None), (2, - 1, None), (3, - 1, None)]
     = (sem0 0 [], [Return 0, Return 0, Return (- EWOULDBLOCK)])
   \<and> snd (rtdm_sem_up pod0 (sem0 0 [4, 5])) = \<lparr>value = 0, synch_base = synch0 (Some 4) [5]\<rparr>
   \<and> snd (rtdm_sem_up pod0 (sem0 0 [])) = sem0 1 []"
proof -
  have live: "\<not> is_deleted (synch_base (sem0 2 []))"
    by (simp add: sem0_def synch0_def testbits_def)
  have three: "length [(1 :: tid, - 1 :: s64, None :: xnticks option), (2, - 1, None), (3, - 1, None)]
      = Suc (unat (value (sem0 2 [])))"
    by (simp add: sem0_def)
  have negative: "\<forall>(thread, timeout, timeout_seq)
      \<in> set [(1 :: tid, - 1 :: s64, None :: xnticks option), (2, - 1, None), (3, - 1, None)].
        timeout <s 0"
    by (simp add: word_sless_alt)
  have shape: "unat (value (sem0 2 [])) = 2" "(sem0 2 [])\<lparr>value := 0\<rparr> = sem0 0 []"
    by (simp_all add: sem0_def)
  have up: "snd (rtdm_sem_up pod0 (sem0 0 [4, 5])) = \<lparr>value = 0, synch_base = synch0 (Some 4) [5]\<rparr>"
       "snd (rtdm_sem_up pod0 (sem0 0 [])) = sem0 1 []"
    by (simp_all add: sem_up_cases sem0_def synch0_def)
  show ?thesis
    using sem_counts_units [OF pod0_blockable live three negative, of "- 1" 1 None "sem0 0 [4, 5]" pod0]
          shape up
    by (simp add: numeral_2_eq_2)
qed

subsection \<open>Deletion\<close>

text \<open>
  C5. An object is flushed with the reason \<open>XNRMID\<close>, and then goes through any
  history of steps of the core: flushes with any reason, signal, pulse, clear, the
  entries and wake-ups of wait, down and lock, up, unlock, and work of the nucleus in
  between. The deleted bit of its synch base is set in the end, and the blocking
  service of its kind, entered then from a context that may block with any timeout
  and handle, returns \<open>-EIDRM\<close>.
\<close>

theorem deleted_is_permanent:
  assumes "exec_ops (Flush XNRMID # ops) (k, p) = Some (k', p')"
      and "\<not> xnpod_unblockable_p k''"
  shows "is_deleted (synch_of p')
       \<and> wait_on k'' thread p' timeout timeout_seq = Return (- EIDRM)"
proof -
  from assms(1) obtain k1 p1 where flush: "exec_op (Flush XNRMID) (k, p) = Some (k1, p1)"
    and rest: "exec_ops ops (k1, p1) = Some (k', p')"
    by (auto split: option.splits)
  from flush have "is_deleted (synch_of p1)"
    using flush_rmid_deletes [of k "synch_of p"]
    by (auto simp add: synch_of_with_synch case_prod_beta)
  with rest have "is_deleted (synch_of p')"
    by (rule exec_ops_keep_deleted)
  with assms(2) show ?thesis
    by (simp add: deleted_wait_fails)
qed

text \<open>
  A set event is destroyed, then signalled, cleared, pulsed, waited on, left by a
  waiter that was woken without a tag, and flushed again: its status is the deleted
  bit alone, and a non-blocking wait returns \<open>-EIDRM\<close>.
\<close>

theorem deleted_is_permanent_witness:
  "exec_ops [Flush XNRMID, Event_signal, Event_clear, Event_pulse, Event_timedwait 1 0 None,
             Event_timedwait_wakeup 1, Flush 0, Nucleus pod0 []] (pod0, Event event_set)
     = Some (pod0, Event \<lparr>status = RTDM_SYNCH_DELETED, owner = None, pendq = []\<rparr>)
   \<and> is_deleted \<lparr>status = RTDM_SYNCH_DELETED, owner = None, pendq = []\<rparr>
   \<and> r_out (rtdm_event_timedwait pod0 1 \<lparr>status = RTDM_SYNCH_DELETED, owner = None, pendq = []\<rparr>
              (- 1) None) = Return (- EIDRM)"
proof -
  have history: "exec_ops [Flush XNRMID, Event_signal, Event_clear, Event_pulse,
             Event_timedwait 1 0 None, Event_timedwait_wakeup 1, Flush 0, Nucleus pod0 []]
            (pod0, Event event_set)
     = Some (pod0, Event \<lparr>status = RTDM_SYNCH_DELETED, owner = None, pendq = []\<rparr>)"
    by (simp add: rtdm_synch_flush_def xnsynch_flush_def rtdm_event_signal_def
          rtdm_event_clear_def rtdm_event_pulse_def rtdm_event_timedwait_def
          rtdm_event_timedwait_wakeup_def assert_fails_def xnpod_unblockable_p_def
          xnthread_test_flags_def xnsynch_test_flags_def xnsynch_set_flags_def
          xnsynch_clear_flags_def xnpod_schedule_def testbits_def setbits_def clrbits_def
          event_set_def pod0_def RTDM_EVENT_PENDING_def RTDM_SYNCH_DELETED_def
          XNSYNCH_SPARE0_def XNSYNCH_SPARE1_def XNSYNCH_DONE_def XNSYNCH_RESCHED_def
          XNTIMEO_def XNRMID_def XNBREAK_def)
  show ?thesis
    using deleted_is_permanent [OF history pod0_blockable, of 1 "- 1" None] history
    by simp
qed

end
